theory Spec2Isabelle
  imports Complex_Main "HOL-Library.Sublist" "HOL-Library.AList"
begin

section \<open>Python values and string helpers\<close>

text \<open>
  JSON data as the Python runtime holds it after \<open>json.loads\<close>: \<open>None\<close>, booleans,
  integers, strings, lists and dictionaries. A dictionary is an association list in
  insertion order with distinct keys. Numeric claims are integers here; clock values
  read by \<open>time.time()\<close> are kept apart as \<open>real\<close>.
\<close>

datatype jval =
    JNull
  | JBool bool
  | JInt int
  | JStr string
  | JList "jval list"
  | JObj "(string \<times> jval) list"

type_synonym pydict = "(string \<times> jval) list"

text \<open>\<open>d.get(k)\<close>: the value, or \<open>None\<close> when the key is absent.\<close>

definition dict_get :: "pydict \<Rightarrow> string \<Rightarrow> jval" where
  "dict_get d k = (case map_of d k of None \<Rightarrow> JNull | Some v \<Rightarrow> v)"

text \<open>\<open>d.get(k, dflt)\<close>.\<close>

definition dict_get_default :: "pydict \<Rightarrow> string \<Rightarrow> jval \<Rightarrow> jval" where
  "dict_get_default d k dflt = (case map_of d k of None \<Rightarrow> dflt | Some v \<Rightarrow> v)"

text \<open>\<open>k in d\<close>.\<close>

definition dict_has :: "pydict \<Rightarrow> string \<Rightarrow> bool" where
  "dict_has d k = (map_of d k \<noteq> None)"

text \<open>\<open>d.update(other)\<close>: existing keys keep their place, new keys go to the end.\<close>

fun dict_update :: "pydict \<Rightarrow> pydict \<Rightarrow> pydict" where
  "dict_update d [] = d"
| "dict_update d ((k, v) # kvs) = dict_update (AList.update k v d) kvs"

text \<open>Python truthiness of a value (\<open>if v:\<close>).\<close>

fun truthy :: "jval \<Rightarrow> bool" where
  "truthy JNull = False"
| "truthy (JBool b) = b"
| "truthy (JInt i) = (i \<noteq> 0)"
| "truthy (JStr s) = (s \<noteq> [])"
| "truthy (JList xs) = (xs \<noteq> [])"
| "truthy (JObj kvs) = (kvs \<noteq> [])"

text \<open>\<open>sub in s\<close> on strings: \<open>sub\<close> occurs in \<open>s\<close> as a contiguous run.\<close>

fun str_contains :: "string \<Rightarrow> string \<Rightarrow> bool" where
  "str_contains sub [] = (sub = [])"
| "str_contains sub (c # cs) = (prefix sub (c # cs) \<or> str_contains sub cs)"

text \<open>\<open>s.lower()\<close> on ASCII text.\<close>

definition lower_char :: "char \<Rightarrow> char" where
  "lower_char c =
     (case map_of (zip ''ABCDEFGHIJKLMNOPQRSTUVWXYZ'' ''abcdefghijklmnopqrstuvwxyz'') c of
        None \<Rightarrow> c | Some d \<Rightarrow> d)"

definition lower :: "string \<Rightarrow> string" where
  "lower s = map lower_char s"

section \<open>Role mapping of the launch route\<close>

text \<open>
  \<open>app/models/lti.py\<close>, \<open>LTIRole\<close>, and the loop over the roles claim in
  \<open>lti13_launch\<close> (\<open>app/api/routes/lti13.py\<close>).
\<close>

datatype LTIRole =
    ADMINISTRATOR
  | INSTRUCTOR
  | LEARNER
  | TEACHING_ASSISTANT
  | CONTENT_DEVELOPER
  | MENTOR
  | MEMBER

definition role_of_uri :: "string \<Rightarrow> LTIRole" where
  "role_of_uri role_uri =
     (if str_contains ''Instructor'' role_uri then INSTRUCTOR
      else if str_contains ''Learner'' role_uri then LEARNER
      else if str_contains ''Administrator'' role_uri then ADMINISTRATOR
      else if str_contains ''TeachingAssistant'' role_uri then TEACHING_ASSISTANT
      else MEMBER)"

fun user_roles :: "string list \<Rightarrow> LTIRole list" where
  "user_roles [] = []"
| "user_roles (role_uri # rest) = role_of_uri role_uri # user_roles rest"

section \<open>Exceptions\<close>

text \<open>
  Every exception the modelled code can meet is a value. The four PyJWT classes that
  \<open>validate_jwt_token\<close> catches by name are kept apart; \<open>AttributeError\<close>, \<open>TypeError\<close>
  and \<open>KeyError\<close> are the faults of the interpreter on a value of the wrong shape (they
  carry the offending value and the attribute or operation); \<open>OtherException\<close> is any
  other exception of a library or of the transport, with its \<open>str()\<close>.
\<close>

datatype py_exc =
    ExpiredSignatureError
  | InvalidAudienceError string
  | InvalidIssuerError string
  | InvalidSignatureError
  | ValueError string
  | AttributeError jval string
  | TypeError string jval
  | KeyError string
  | OtherException string

section \<open>Decimal rendering of integers\<close>

definition digit_char :: "nat \<Rightarrow> char" where
  "digit_char d = ''0123456789'' ! (d mod 10)"

fun str_nat :: "nat \<Rightarrow> string" where
  "str_nat n = (if n < 10 then [digit_char n] else str_nat (n div 10) @ [digit_char n])"

declare str_nat.simps [simp del]

text \<open>\<open>str(i)\<close> for an integer.\<close>

definition str_int :: "int \<Rightarrow> string" where
  "str_int i = (if i < 0 then CHR ''-'' # str_nat (nat (- i)) else str_nat (nat i))"

section \<open>Legacy outcomes response parser\<close>








section \<open>Configuration\<close>

text \<open>
  \<open>app/core/config.py\<close>: the fields of \<open>Settings\<close> that the validator and the grade
  service read. \<open>env\<close> is the process environment after \<open>load_dotenv()\<close>; the default
  configuration is the one of an environment that sets none of the variables.
\<close>

record settings =
  DEBUG :: bool
  LTI_CLIENT_ID :: string
  LTI_DEPLOYMENT_ID :: string
  LTI_TOOL_URL :: string
  LTI_PLATFORM_ISSUER :: string
  LTI_PLATFORM_TOKEN_URL :: string
  LTI_PLATFORM_JWKS_URL :: string
  LTI_PRIVATE_KEY_PATH :: string
  LTI_KEY_ID :: string

text \<open>\<open>os.getenv(k, dflt)\<close>.\<close>

definition getenv :: "(string \<rightharpoonup> string) \<Rightarrow> string \<Rightarrow> string \<Rightarrow> string" where
  "getenv env k dflt = (case env k of None \<Rightarrow> dflt | Some v \<Rightarrow> v)"

definition Settings :: "(string \<rightharpoonup> string) \<Rightarrow> settings" where
  "Settings env =
     \<lparr> DEBUG = (lower (getenv env ''DEBUG'' ''true'') = ''true''),
       LTI_CLIENT_ID = getenv env ''LTI_CLIENT_ID'' ''CHANGE_ME_MOODLE_WILL_PROVIDE_THIS'',
       LTI_DEPLOYMENT_ID = getenv env ''LTI_DEPLOYMENT_ID'' ''CHANGE_ME_MOODLE_WILL_PROVIDE_THIS'',
       LTI_TOOL_URL = getenv env ''LTI_TOOL_URL'' ''http://localhost:8000'',
       LTI_PLATFORM_ISSUER = getenv env ''LTI_PLATFORM_ISSUER'' ''CHANGE_ME_MOODLE_WILL_PROVIDE_THIS'',
       LTI_PLATFORM_TOKEN_URL =
         getenv env ''LTI_PLATFORM_TOKEN_URL'' ''CHANGE_ME_MOODLE_WILL_PROVIDE_THIS'',
       LTI_PLATFORM_JWKS_URL =
         getenv env ''LTI_PLATFORM_JWKS_URL'' ''CHANGE_ME_MOODLE_WILL_PROVIDE_THIS'',
       LTI_PRIVATE_KEY_PATH = getenv env ''LTI_PRIVATE_KEY_PATH'' ''keys/private.pem'',
       LTI_KEY_ID = getenv env ''LTI_KEY_ID'' ''lti-key-1'' \<rparr>"

section \<open>Text of values and exceptions\<close>

text \<open>
  What the interpreter prints is a parameter where the source leaves it to the
  interpreter: \<open>repr_text\<close> is \<open>str()\<close> of a list or a dictionary, \<open>fault_text\<close> is \<open>str()\<close>
  of an exception that carries no message of its own here (an \<open>AttributeError\<close>,
  \<open>TypeError\<close> or \<open>KeyError\<close> that the interpreter raised).
\<close>

record runtime =
  repr_text :: "jval \<Rightarrow> string"
  fault_text :: "py_exc \<Rightarrow> string"

text \<open>\<open>str(v)\<close>, as an f-string renders a value.\<close>

definition py_str :: "runtime \<Rightarrow> jval \<Rightarrow> string" where
  "py_str rt v =
     (case v of
        JNull \<Rightarrow> ''None''
      | JBool b \<Rightarrow> (if b then ''True'' else ''False'')
      | JInt i \<Rightarrow> str_int i
      | JStr s \<Rightarrow> s
      | _ \<Rightarrow> repr_text rt v)"

text \<open>\<open>str(e)\<close> of a caught exception.\<close>

definition exc_str :: "runtime \<Rightarrow> py_exc \<Rightarrow> string" where
  "exc_str rt e =
     (case e of
        InvalidAudienceError m \<Rightarrow> m
      | InvalidIssuerError m \<Rightarrow> m
      | ValueError m \<Rightarrow> m
      | OtherException m \<Rightarrow> m
      | _ \<Rightarrow> fault_text rt e)"

text \<open>\<open>str(xs)\<close> of a list of the fixed claim names (no quotes or escapes inside).\<close>

fun join_comma :: "string list \<Rightarrow> string" where
  "join_comma [] = []"
| "join_comma [s] = s"
| "join_comma (s # t # rest) = s @ '', '' @ join_comma (t # rest)"

definition repr_str_list :: "string list \<Rightarrow> string" where
  "repr_str_list xs = ''['' @ join_comma (map (\<lambda>s. [CHR 0x27] @ s @ [CHR 0x27]) xs) @ '']''"

text \<open>
  The integer value of a number, where Python's arithmetic and ordering take one:
  booleans count as 0 and 1, everything else is a \<open>TypeError\<close> for the caller.
\<close>

fun num_of :: "jval \<Rightarrow> int option" where
  "num_of (JInt i) = Some i"
| "num_of (JBool b) = Some (if b then 1 else 0)"
| "num_of v = None"

text \<open>
  \<open>a == b\<close>: numbers compare by value across \<open>bool\<close> and \<open>int\<close>. Lists and dictionaries
  are compared as they are written (inside them Python would still take \<open>True\<close> for 1,
  and it compares dictionaries up to the order of their keys).
\<close>

definition py_eq :: "jval \<Rightarrow> jval \<Rightarrow> bool" where
  "py_eq a b =
     (case (num_of a, num_of b) of
        (Some x, Some y) \<Rightarrow> x = y
      | (None, None) \<Rightarrow> a = b
      | _ \<Rightarrow> False)"

text \<open>\<open>int(x)\<close> of a float: truncation towards zero.\<close>

definition py_int :: "real \<Rightarrow> int" where
  "py_int x = (if 0 \<le> x then \<lfloor>x\<rfloor> else \<lceil>x\<rceil>)"

section \<open>Platform key sets and their cache\<close>

text \<open>
  \<open>app/core/lti13_validator.py\<close>, \<open>LTI13Validator\<close>. The cache is a dictionary from the
  issuer to the key set and the time it was stored.
\<close>

record cache_entry =
  jwks :: jval
  timestamp :: real

record LTI13Validator =
  platform_jwks_cache :: "string \<rightharpoonup> cache_entry"
  cache_expiry :: real

text \<open>\<open>LTI13Validator.__init__\<close>.\<close>

definition LTI13Validator_init :: LTI13Validator where
  "LTI13Validator_init = \<lparr> platform_jwks_cache = Map.empty, cache_expiry = 3600 \<rparr>"

definition jwks_url_of :: "settings \<Rightarrow> string \<Rightarrow> string" where
  "jwks_url_of cfg platform_issuer =
     (if str_contains ''moodle'' (lower platform_issuer) \<or> platform_issuer = LTI_PLATFORM_ISSUER cfg
      then LTI_PLATFORM_JWKS_URL cfg
      else platform_issuer @ ''/.well-known/jwks.json'')"

text \<open>
  \<open>get_platform_jwks\<close>. \<open>http_get url\<close> stands for \<open>requests.get\<close>, \<open>raise_for_status\<close> and
  \<open>response.json()\<close> together: \<open>Inl msg\<close> is any exception of the three, which the source
  catches. \<open>t_check\<close> is the clock read by the freshness test, \<open>t_store\<close> the clock read
  when the entry is written. The result is the key set, the validator after the call and
  the URLs fetched by the call, in order.
\<close>

definition get_platform_jwks ::
  "settings \<Rightarrow> (string \<Rightarrow> string + jval) \<Rightarrow> real \<Rightarrow> real \<Rightarrow> LTI13Validator \<Rightarrow> string
     \<Rightarrow> jval \<times> LTI13Validator \<times> string list" where
  "get_platform_jwks cfg http_get t_check t_store self platform_issuer =
     (let fresh =
            (case platform_jwks_cache self platform_issuer of
               None \<Rightarrow> None
             | Some cached_data \<Rightarrow>
                 if t_check - timestamp cached_data < cache_expiry self
                 then Some (jwks cached_data) else None)
      in case fresh of
           Some cached_jwks \<Rightarrow> (cached_jwks, self, [])
         | None \<Rightarrow>
             (let jwks_url = jwks_url_of cfg platform_issuer
              in case http_get jwks_url of
                   Inr fetched \<Rightarrow>
                     (fetched,
                      self\<lparr> platform_jwks_cache :=
                              (platform_jwks_cache self)
                                (platform_issuer \<mapsto> \<lparr> jwks = fetched, timestamp = t_store \<rparr>) \<rparr>,
                      [jwks_url])
                 | Inl e \<Rightarrow> (JObj [(''keys'', JList [])], self, [jwks_url])))"

section \<open>Validation of the identity token\<close>

text \<open>
  \<open>validate_jwt_token\<close> calls PyJWT four times; the four calls are parameters, each
  returning its value or the exception it raises: \<open>jwt.get_unverified_header\<close>,
  \<open>jwt.decode\<close> with \<open>verify_signature: False\<close>, \<open>RSAAlgorithm.from_jwk\<close>, and
  \<open>jwt.decode\<close> with a key, the algorithm RS256, an audience and an issuer. \<open>'k\<close> is the
  type of public keys. The record also holds the transport and the clock of one call.
\<close>

record 'k jwt_env =
  get_unverified_header :: "string \<Rightarrow> py_exc + pydict"
  decode_unverified :: "string \<Rightarrow> py_exc + pydict"
  from_jwk :: "pydict \<Rightarrow> py_exc + 'k"
  decode_verified :: "string \<Rightarrow> 'k \<Rightarrow> string \<Rightarrow> string \<Rightarrow> py_exc + pydict"
  http_get :: "string \<Rightarrow> string + jval"
  t_check :: real
  t_store :: real

text \<open>\<open>v.get(k)\<close> on a value that may not be a dictionary.\<close>

definition dyn_get :: "jval \<Rightarrow> string \<Rightarrow> py_exc + jval" where
  "dyn_get v k = (case v of JObj d \<Rightarrow> Inr (dict_get d k) | _ \<Rightarrow> Inl (AttributeError v ''get''))"

text \<open>
  \<open>for x in v\<close>: the elements of a list, the characters of a string, the keys of a
  dictionary; anything else is not iterable.
\<close>

definition iter_values :: "jval \<Rightarrow> py_exc + jval list" where
  "iter_values v =
     (case v of
        JList xs \<Rightarrow> Inr xs
      | JStr s \<Rightarrow> Inr (map (\<lambda>c. JStr [c]) s)
      | JObj d \<Rightarrow> Inr (map (\<lambda>kv. JStr (fst kv)) d)
      | _ \<Rightarrow> Inl (TypeError ''iter'' v))"

text \<open>
  The loop over \<open>jwks['keys']\<close>: the first key whose \<open>kid\<close> equals the header's, or,
  when the header has no \<open>kid\<close>, the first key with \<open>use\<close> equal to \<open>sig\<close>; the loop
  breaks there. \<open>Inr None\<close> is the loop ending with \<open>public_key\<close> still \<open>None\<close>.
\<close>

fun select_key :: "(pydict \<Rightarrow> py_exc + 'k) \<Rightarrow> jval \<Rightarrow> jval list \<Rightarrow> py_exc + 'k option" where
  "select_key jwk_to_key kid [] = Inr None"
| "select_key jwk_to_key kid (key_data # rest) =
     (case key_data of
        JObj d \<Rightarrow>
          if truthy kid \<and> py_eq (dict_get d ''kid'') kid then map_sum id Some (jwk_to_key d)
          else if \<not> truthy kid \<and> py_eq (dict_get d ''use'') (JStr ''sig'')
            then map_sum id Some (jwk_to_key d)
          else select_key jwk_to_key kid rest
      | _ \<Rightarrow> Inl (AttributeError key_data ''get''))"

text \<open>\<open>audience or settings.LTI_CLIENT_ID\<close>.\<close>

definition audience_or :: "settings \<Rightarrow> string option \<Rightarrow> string" where
  "audience_or cfg audience =
     (case audience of
        None \<Rightarrow> LTI_CLIENT_ID cfg
      | Some a \<Rightarrow> if a = [] then LTI_CLIENT_ID cfg else a)"

text \<open>
  The part of the \<open>try\<close> block after the key set is known (source lines 94 to 132):
  the returned dictionary, or the exception raised.
\<close>

definition verify_with_jwks ::
  "settings \<Rightarrow> runtime \<Rightarrow> 'k jwt_env \<Rightarrow> string \<Rightarrow> string option \<Rightarrow> pydict \<Rightarrow> pydict \<Rightarrow> string
     \<Rightarrow> jval \<Rightarrow> py_exc + pydict" where
  "verify_with_jwks cfg rt env token audience header payload platform_issuer jwks_doc =
     (case dyn_get jwks_doc ''keys'' of
        Inl e \<Rightarrow> Inl e
      | Inr keys \<Rightarrow>
          if \<not> truthy keys then
            (if DEBUG cfg then
               Inr [(''valid'', JBool True), (''payload'', JObj payload),
                    (''warnings'', JList [JStr ''Signature verification skipped in debug mode''])]
             else Inl (ValueError ''No public keys available for signature verification''))
          else
            (let kid = dict_get header ''kid''
             in case iter_values keys of
                  Inl e \<Rightarrow> Inl e
                | Inr key_list \<Rightarrow>
                    (case select_key (from_jwk env) kid key_list of
                       Inl e \<Rightarrow> Inl e
                     | Inr None \<Rightarrow>
                         Inl (ValueError (''No matching public key found for kid: '' @ py_str rt kid))
                     | Inr (Some public_key) \<Rightarrow>
                         (case decode_verified env token public_key (audience_or cfg audience)
                                 platform_issuer of
                            Inl e \<Rightarrow> Inl e
                          | Inr verified_payload \<Rightarrow>
                              Inr [(''valid'', JBool True), (''payload'', JObj verified_payload),
                                   (''warnings'', JList [])]))))"

text \<open>
  What \<open>get_platform_jwks\<close> raises on an issuer that is not a string: a list or a
  dictionary cannot be looked up in the cache, anything else has no \<open>lower\<close>.
\<close>

definition issuer_fault :: "jval \<Rightarrow> py_exc" where
  "issuer_fault v =
     (case v of
        JList xs \<Rightarrow> TypeError ''hash'' v
      | JObj d \<Rightarrow> TypeError ''hash'' v
      | _ \<Rightarrow> AttributeError v ''lower'')"

text \<open>
  The whole \<open>try\<close> block: the outcome, the validator after it (the cache keeps what
  \<open>get_platform_jwks\<close> stored, whatever happens later) and the URLs fetched.
\<close>

definition validate_jwt_token_try ::
  "settings \<Rightarrow> runtime \<Rightarrow> 'k jwt_env \<Rightarrow> LTI13Validator \<Rightarrow> string \<Rightarrow> string option
     \<Rightarrow> (py_exc + pydict) \<times> LTI13Validator \<times> string list" where
  "validate_jwt_token_try cfg rt env self token audience =
     (case get_unverified_header env token of
        Inl e \<Rightarrow> (Inl e, self, [])
      | Inr header \<Rightarrow>
          (case decode_unverified env token of
             Inl e \<Rightarrow> (Inl e, self, [])
           | Inr payload \<Rightarrow>
               if \<not> dict_has payload ''iss'' then
                 (Inl (ValueError ''Missing issuer (iss) in JWT''), self, [])
               else if \<not> dict_has payload ''aud'' then
                 (Inl (ValueError ''Missing audience (aud) in JWT''), self, [])
               else
                 (case dict_get payload ''iss'' of
                    JStr platform_issuer \<Rightarrow>
                      (case get_platform_jwks cfg (http_get env) (t_check env) (t_store env)
                              self platform_issuer of
                         (jwks_doc, self', fetched) \<Rightarrow>
                           (verify_with_jwks cfg rt env token audience header payload
                              platform_issuer jwks_doc,
                            self', fetched))
                  | v \<Rightarrow> (Inl (issuer_fault v), self, []))))"

text \<open>The \<open>except\<close> clauses, in the source's order.\<close>

definition validate_jwt_token_except :: "runtime \<Rightarrow> py_exc \<Rightarrow> pydict" where
  "validate_jwt_token_except rt e =
     (case e of
        ExpiredSignatureError \<Rightarrow> [(''valid'', JBool False), (''error'', JStr ''Token expired'')]
      | InvalidAudienceError m \<Rightarrow>
          [(''valid'', JBool False), (''error'', JStr (''Invalid audience: '' @ m))]
      | InvalidIssuerError m \<Rightarrow>
          [(''valid'', JBool False), (''error'', JStr (''Invalid issuer: '' @ m))]
      | InvalidSignatureError \<Rightarrow> [(''valid'', JBool False), (''error'', JStr ''Invalid signature'')]
      | _ \<Rightarrow> [(''valid'', JBool False), (''error'', JStr (exc_str rt e))])"

definition validate_jwt_token ::
  "settings \<Rightarrow> runtime \<Rightarrow> 'k jwt_env \<Rightarrow> LTI13Validator \<Rightarrow> string \<Rightarrow> string option
     \<Rightarrow> pydict \<times> LTI13Validator \<times> string list" where
  "validate_jwt_token cfg rt env self token audience =
     (case validate_jwt_token_try cfg rt env self token audience of
        (Inr result, self', fetched) \<Rightarrow> (result, self', fetched)
      | (Inl e, self', fetched) \<Rightarrow> (validate_jwt_token_except rt e, self', fetched))"

section \<open>Validation of the message claims\<close>

definition required_claims :: "string list" where
  "required_claims =
     [''iss'', ''aud'', ''exp'', ''iat'', ''nonce'',
      ''https://purl.imsglobal.org/spec/lti/claim/message_type'',
      ''https://purl.imsglobal.org/spec/lti/claim/version'',
      ''https://purl.imsglobal.org/spec/lti/claim/deployment_id'']"

definition supported_types :: "jval list" where
  "supported_types =
     [JStr ''LtiResourceLinkRequest'', JStr ''LtiDeepLinkingRequest'',
      JStr ''LtiSubmissionReviewRequest'']"

text \<open>
  \<open>validate_lti_message\<close>. \<open>now\<close> is \<open>time.time()\<close>. The two lists grow in the order of
  the source's checks. Nothing is caught here: \<open>startswith\<close> on a value that is not a
  string, and an ordering test on a value that is not a number, leave the function as
  exceptions.
\<close>

definition validate_lti_message ::
  "settings \<Rightarrow> runtime \<Rightarrow> real \<Rightarrow> pydict \<Rightarrow> py_exc + pydict" where
  "validate_lti_message cfg rt now jwt_payload =
     (let missing_claims = filter (\<lambda>claim. \<not> dict_has jwt_payload claim) required_claims;
          errors1 = (if missing_claims \<noteq> []
                     then [''Missing required claims: '' @ repr_str_list missing_claims] else []);
          lti_version = dict_get jwt_payload ''https://purl.imsglobal.org/spec/lti/claim/version'';
          warnings1 = (if \<not> py_eq lti_version (JStr ''1.3.0'')
                       then [''LTI version '' @ py_str rt lti_version @ '' may not be fully supported'']
                       else []);
          message_type =
            dict_get jwt_payload ''https://purl.imsglobal.org/spec/lti/claim/message_type'';
          warnings2 = warnings1 @
                      (if \<not> list_ex (py_eq message_type) supported_types
                       then [''Message type '' @ py_str rt message_type @
                             '' may not be fully supported'']
                       else []);
          deployment_id =
            dict_get jwt_payload ''https://purl.imsglobal.org/spec/lti/claim/deployment_id'';
          errors2 = errors1 @
                    (if \<not> py_eq deployment_id (JStr (LTI_DEPLOYMENT_ID cfg))
                     then [''Invalid deployment ID: '' @ py_str rt deployment_id] else []);
          target_link_uri =
            dict_get jwt_payload ''https://purl.imsglobal.org/spec/lti/claim/target_link_uri''
      in case (if \<not> truthy target_link_uri then Inr warnings2
               else (case target_link_uri of
                       JStr uri \<Rightarrow>
                         Inr (warnings2 @
                              (if \<not> prefix (LTI_TOOL_URL cfg) uri
                               then [''Target link URI doesn'' @ [CHR 0x27] @
                                     ''t match tool URL: '' @ uri]
                               else []))
                     | _ \<Rightarrow> Inl (AttributeError target_link_uri ''startswith''))) of
           Inl e \<Rightarrow> Inl e
         | Inr warnings3 \<Rightarrow>
             (let current_time = py_int now;
                  exp_claim = dict_get_default jwt_payload ''exp'' (JInt 0);
                  iat_claim = dict_get_default jwt_payload ''iat'' (JInt 0)
              in case num_of exp_claim of
                   None \<Rightarrow> Inl (TypeError ''<'' exp_claim)
                 | Some exp_n \<Rightarrow>
                     (let errors3 = errors2 @
                                    (if exp_n < current_time then [''Token has expired''] else [])
                      in case num_of iat_claim of
                           None \<Rightarrow> Inl (TypeError ''>'' iat_claim)
                         | Some iat_n \<Rightarrow>
                             (let errors4 = errors3 @
                                            (if iat_n > current_time + 60
                                             then [''Token issued in the future''] else [])
                              in Inr [(''valid'', JBool (errors4 = [])),
                                      (''errors'', JList (map JStr errors4)),
                                      (''warnings'', JList (map JStr warnings3))]))))"

section \<open>The tool's own tokens\<close>

text \<open>
  \<open>create_tool_jwt\<close>. The claims handed to \<open>jwt.encode\<close> are the caller's payload after
  \<open>payload.update\<close>, which overwrites \<open>iss\<close>, \<open>aud\<close>, \<open>iat\<close> and \<open>exp\<close>.
\<close>

definition tool_jwt_claims :: "settings \<Rightarrow> real \<Rightarrow> pydict \<Rightarrow> pydict" where
  "tool_jwt_claims cfg now payload =
     (let current_time = py_int now
      in dict_update payload
           [(''iss'', JStr (LTI_TOOL_URL cfg)),
            (''aud'', JStr (LTI_PLATFORM_ISSUER cfg)),
            (''iat'', JInt current_time),
            (''exp'', JInt (current_time + 3600))])"

text \<open>
  \<open>sign path claims headers\<close> stands for reading the key file at \<open>path\<close>, loading the
  key and \<open>jwt.encode\<close> with RS256: \<open>Inl msg\<close> is any exception of the three, which
  the source turns into a \<open>ValueError\<close>.
\<close>

definition create_tool_jwt ::
  "settings \<Rightarrow> (string \<Rightarrow> pydict \<Rightarrow> pydict \<Rightarrow> string + string) \<Rightarrow> real \<Rightarrow> pydict
     \<Rightarrow> py_exc + string" where
  "create_tool_jwt cfg sign now payload =
     (case sign (LTI_PRIVATE_KEY_PATH cfg) (tool_jwt_claims cfg now payload)
             [(''kid'', JStr (LTI_KEY_ID cfg))] of
        Inr token \<Rightarrow> Inr token
      | Inl e \<Rightarrow> Inl (ValueError (''JWT creation failed: '' @ e)))"

section \<open>Access tokens of the grade service\<close>

text \<open>
  \<open>app/services/lti13_grade_service.py\<close>, \<open>LTI13GradeService\<close>: one token slot.
  \<open>token_expiry\<close> is \<open>None\<close> until a token has been stored.
\<close>

record LTI13GradeService =
  access_token :: jval
  token_expiry :: "real option"

text \<open>\<open>LTI13GradeService.__init__\<close>.\<close>

definition LTI13GradeService_init :: LTI13GradeService where
  "LTI13GradeService_init = \<lparr> access_token = JNull, token_expiry = None \<rparr>"

text \<open>A POST to the token endpoint: the URL, the form data and the headers.\<close>

record token_request =
  req_url :: string
  req_data :: pydict
  req_headers :: "(string \<times> string) list"

text \<open>
  The transport and the clock of one call: \<open>sign\<close> as above; \<open>post\<close> stands for
  \<open>requests.post\<close>, \<open>raise_for_status\<close> and \<open>response.json()\<close> together, \<open>Inl msg\<close> being
  any exception of the three; the four readings of \<open>datetime.utcnow().timestamp()\<close> and
  \<open>time.time()\<close> in the order the source takes them.
\<close>

record ags_env =
  sign :: "string \<Rightarrow> pydict \<Rightarrow> pydict \<Rightarrow> string + string"
  post :: "token_request \<Rightarrow> string + jval"
  t_cached :: real
  t_jti :: real
  t_iat :: real
  t_expiry :: real

text \<open>\<open>v[k]\<close> with a string key.\<close>

definition dyn_item :: "jval \<Rightarrow> string \<Rightarrow> py_exc + jval" where
  "dyn_item v k =
     (case v of
        JObj d \<Rightarrow> (case map_of d k of None \<Rightarrow> Inl (KeyError k) | Some x \<Rightarrow> Inr x)
      | _ \<Rightarrow> Inl (TypeError ''item'' v))"

text \<open>\<open>if self.access_token and self.token_expiry:\<close> with the test of the clock inside.\<close>

definition cached_token_usable :: "LTI13GradeService \<Rightarrow> real \<Rightarrow> bool" where
  "cached_token_usable self now =
     (truthy (access_token self) \<and>
      (case token_expiry self of None \<Rightarrow> False | Some expiry \<Rightarrow> expiry \<noteq> 0 \<and> now < expiry))"

definition client_assertion_payload :: "settings \<Rightarrow> real \<Rightarrow> pydict" where
  "client_assertion_payload cfg now =
     [(''iss'', JStr (LTI_CLIENT_ID cfg)),
      (''sub'', JStr (LTI_CLIENT_ID cfg)),
      (''aud'', JStr (LTI_PLATFORM_TOKEN_URL cfg)),
      (''jti'', JStr (''lti-service-token-'' @ str_int (py_int now)))]"

text \<open>
  \<open>get_access_token\<close> (its argument \<open>ags_claim\<close> is not read). The result is the
  returned token or the \<open>ValueError\<close> raised, the service after the call, and the
  requests sent to the token endpoint by the call. \<open>self.access_token\<close> is assigned
  before \<open>expires_in\<close> is added to the clock, so it stays assigned when that addition
  raises.
\<close>

definition get_access_token ::
  "settings \<Rightarrow> runtime \<Rightarrow> ags_env \<Rightarrow> LTI13GradeService
     \<Rightarrow> (py_exc + jval) \<times> LTI13GradeService \<times> token_request list" where
  "get_access_token cfg rt env self =
     (if cached_token_usable self (t_cached env) then (Inr (access_token self), self, [])
      else
        (let token_url = LTI_PLATFORM_TOKEN_URL cfg;
             payload = client_assertion_payload cfg (t_jti env)
         in case create_tool_jwt cfg (sign env) (t_iat env) payload of
              Inl e \<Rightarrow> (Inl (ValueError (''Token request failed: '' @ exc_str rt e)), self, [])
            | Inr client_assertion \<Rightarrow>
                (let request =
                       \<lparr> req_url = token_url,
                         req_data =
                           [(''grant_type'', JStr ''client_credentials''),
                            (''client_assertion_type'',
                             JStr ''urn:ietf:params:oauth:client-assertion-type:jwt-bearer''),
                            (''client_assertion'', JStr client_assertion),
                            (''scope'', JStr ''https://purl.imsglobal.org/spec/lti-ags/scope/score'')],
                         req_headers = [(''Content-Type'', ''application/x-www-form-urlencoded'')] \<rparr>
                 in case post env request of
                      Inl e \<Rightarrow> (Inl (ValueError (''Token request failed: '' @ e)), self, [request])
                    | Inr token_response \<Rightarrow>
                        (case dyn_item token_response ''access_token'' of
                           Inl e \<Rightarrow>
                             (Inl (ValueError (''Token request failed: '' @ exc_str rt e)),
                              self, [request])
                         | Inr token \<Rightarrow>
                             (let self1 = self\<lparr> access_token := token \<rparr>;
                                  expires_in =
                                    (case token_response of
                                       JObj d \<Rightarrow> dict_get_default d ''expires_in'' (JInt 3600)
                                     | _ \<Rightarrow> JInt 3600)
                              in case num_of expires_in of
                                   None \<Rightarrow>
                                     (Inl (ValueError (''Token request failed: '' @
                                             exc_str rt (TypeError ''+'' expires_in))),
                                      self1, [request])
                                 | Some n \<Rightarrow>
                                     (Inr token,
                                      self1\<lparr> token_expiry := Some (t_expiry env + real_of_int n) \<rparr>,
                                      [request]))))))"

text \<open>
  Successive calls of \<open>get_access_token\<close> on one service object, one environment per
  call: the results in order, the service after the last call, and all requests sent.
\<close>

fun get_access_token_calls ::
  "settings \<Rightarrow> runtime \<Rightarrow> ags_env list \<Rightarrow> LTI13GradeService
     \<Rightarrow> (py_exc + jval) list \<times> LTI13GradeService \<times> token_request list" where
  "get_access_token_calls cfg rt [] self = ([], self, [])"
| "get_access_token_calls cfg rt (env # envs) self =
     (case get_access_token cfg rt env self of
        (result, self1, sent) \<Rightarrow>
          (case get_access_token_calls cfg rt envs self1 of
             (results, self2, sent') \<Rightarrow> (result # results, self2, sent @ sent')))"

section \<open>Sample environments\<close>

text \<open>
  Concrete inputs on which the theorems below are exercised: an environment that sets
  the four identifiers of a deployment, an interpreter, a platform whose token endpoint
  grants \<open>tok-1\<close> for an hour, and a platform whose key-set URL answers or fails.
\<close>

definition sample_env_vars :: "string \<rightharpoonup> string" where
  "sample_env_vars =
     map_of [(''LTI_CLIENT_ID'', ''client-123''),
             (''LTI_TOOL_URL'', ''https://tool.example''),
             (''LTI_PLATFORM_ISSUER'', ''https://moodle.example''),
             (''LTI_PLATFORM_TOKEN_URL'', ''https://moodle.example/mod/lti/token.php'')]"

definition sample_runtime :: runtime where
  "sample_runtime = \<lparr> repr_text = (\<lambda>v. ''[...]''), fault_text = (\<lambda>e. ''fault'') \<rparr>"

definition sample_ags_env :: "real \<Rightarrow> ags_env" where
  "sample_ags_env now =
     \<lparr> sign = (\<lambda>path claims headers. Inr ''header.claims.signature''),
       post = (\<lambda>request. Inr (JObj [(''access_token'', JStr ''tok-1''), (''expires_in'', JInt 3600)])),
       t_cached = now, t_jti = now, t_iat = now, t_expiry = now \<rparr>"

definition sample_jwks :: jval where
  "sample_jwks = JObj [(''keys'', JList [JObj [(''kty'', JStr ''RSA''), (''kid'', JStr ''k1''),
                                              (''use'', JStr ''sig'')]])]"

definition fetch_ok :: "string \<Rightarrow> string + jval" where
  "fetch_ok url = Inr sample_jwks"

definition fetch_fails :: "string \<Rightarrow> string + jval" where
  "fetch_fails url = Inl ''connection refused''"

text \<open>
  A launch payload with the given \<open>exp\<close>, issued at 900, for the deployment of the default
  configuration; and the PyJWT of one call at clock 1000: every token decodes to the
  given payload, every JWK is accepted, and the verifying decode checks \<open>exp\<close>.
\<close>

definition sample_payload :: "int \<Rightarrow> pydict" where
  "sample_payload expiry =
     [(''iss'', JStr ''https://moodle.example''),
      (''aud'', JStr ''client-123''),
      (''exp'', JInt expiry),
      (''iat'', JInt 900),
      (''nonce'', JStr ''n-1''),
      (''https://purl.imsglobal.org/spec/lti/claim/message_type'', JStr ''LtiResourceLinkRequest''),
      (''https://purl.imsglobal.org/spec/lti/claim/version'', JStr ''1.3.0''),
      (''https://purl.imsglobal.org/spec/lti/claim/deployment_id'',
       JStr ''CHANGE_ME_MOODLE_WILL_PROVIDE_THIS'')]"

definition sample_jwt_env :: "pydict \<Rightarrow> (string \<Rightarrow> string + jval) \<Rightarrow> string jwt_env" where
  "sample_jwt_env payload fetch =
     \<lparr> get_unverified_header = (\<lambda>token. Inr [(''alg'', JStr ''RS256''), (''kid'', JStr ''k1'')]),
       decode_unverified = (\<lambda>token. Inr payload),
       from_jwk = (\<lambda>key_data. Inr ''public-key''),
       decode_verified =
         (\<lambda>token key audience issuer.
            case num_of (dict_get payload ''exp'') of
              Some e \<Rightarrow> if e < 1000 then Inl ExpiredSignatureError else Inr payload
            | None \<Rightarrow> Inr payload),
       http_get = fetch,
       t_check = 1000,
       t_store = 1000 \<rparr>"


section \<open>Properties of the outcomes response parser\<close>











section \<open>Properties of the role mapping\<close>

lemma str_contains_sublist: "str_contains sub s = sublist sub s"
  by (induction s) (auto simp: sublist_Cons_right)

lemma user_roles_map: "user_roles uris = map role_of_uri uris"
  by (induction uris) simp_all

text \<open>
  C5, as stated, fails: an IRI that holds \<open>TeachingAssistant\<close> need not map to
  \<open>TEACHING_ASSISTANT\<close>. The IRI that \<open>LTIRole.TEACHING_ASSISTANT\<close> itself carries holds
  \<open>Instructor\<close> as well, and the \<open>Instructor\<close> test comes first.
\<close>

theorem role_mapping_counterexample:
  "str_contains ''TeachingAssistant''
     ''http://purl.imsglobal.org/vocab/lis/v2/membership/Instructor#TeachingAssistant'' \<and>
   role_of_uri ''http://purl.imsglobal.org/vocab/lis/v2/membership/Instructor#TeachingAssistant''
     \<noteq> TEACHING_ASSISTANT"
  by (simp add: role_of_uri_def)

text \<open>
  C5, amended: every IRI of the roles claim is mapped to exactly one role, by substring
  containment, the first match winning in the order Instructor, Learner, Administrator,
  TeachingAssistant, and Member otherwise. An IRI holding \<open>TeachingAssistant\<close> maps to
  TeachingAssistant when it holds none of \<open>Instructor\<close>, \<open>Learner\<close>, \<open>Administrator\<close>.
  A list with an IRI holding \<open>Instructor\<close> and an IRI holding \<open>Learner\<close> but not
  \<open>Instructor\<close> maps to roles that include both, and the set of roles does not depend
  on the order of the list.
\<close>

theorem role_mapping_first_match:
  "user_roles uris = map role_of_uri uris \<and>
   role_of_uri u =
     (if sublist ''Instructor'' u then INSTRUCTOR
      else if sublist ''Learner'' u then LEARNER
      else if sublist ''Administrator'' u then ADMINISTRATOR
      else if sublist ''TeachingAssistant'' u then TEACHING_ASSISTANT
      else MEMBER) \<and>
   (sublist ''TeachingAssistant'' u \<longrightarrow> \<not> sublist ''Instructor'' u \<longrightarrow>
    \<not> sublist ''Learner'' u \<longrightarrow> \<not> sublist ''Administrator'' u \<longrightarrow>
      role_of_uri u = TEACHING_ASSISTANT) \<and>
   (a \<in> set uris \<longrightarrow> sublist ''Instructor'' a \<longrightarrow>
    b \<in> set uris \<longrightarrow> sublist ''Learner'' b \<longrightarrow> \<not> sublist ''Instructor'' b \<longrightarrow>
      INSTRUCTOR \<in> set (user_roles uris) \<and> LEARNER \<in> set (user_roles uris)) \<and>
   (set uris' = set uris \<longrightarrow> set (user_roles uris') = set (user_roles uris))"
proof -
  have r: "\<And>v. role_of_uri v =
     (if sublist ''Instructor'' v then INSTRUCTOR
      else if sublist ''Learner'' v then LEARNER
      else if sublist ''Administrator'' v then ADMINISTRATOR
      else if sublist ''TeachingAssistant'' v then TEACHING_ASSISTANT
      else MEMBER)"
    unfolding role_of_uri_def str_contains_sublist by (rule refl)
  have m: "\<And>xs. set (user_roles xs) = role_of_uri ` set xs"
    by (simp add: user_roles_map)
  have p: "a \<in> set uris \<longrightarrow> sublist ''Instructor'' a \<longrightarrow>
    b \<in> set uris \<longrightarrow> sublist ''Learner'' b \<longrightarrow> \<not> sublist ''Instructor'' b \<longrightarrow>
      INSTRUCTOR \<in> set (user_roles uris) \<and> LEARNER \<in> set (user_roles uris)"
  proof (intro impI)
    assume a: "a \<in> set uris" "sublist ''Instructor'' a"
      and b: "b \<in> set uris" "sublist ''Learner'' b" "\<not> sublist ''Instructor'' b"
    have "role_of_uri a = INSTRUCTOR" using a(2) by (simp add: r)
    moreover have "role_of_uri b = LEARNER" using b(2,3) by (simp add: r)
    ultimately show "INSTRUCTOR \<in> set (user_roles uris) \<and> LEARNER \<in> set (user_roles uris)"
      unfolding m using a(1) b(1) by (metis imageI)
  qed
  have t: "sublist ''TeachingAssistant'' u \<longrightarrow> \<not> sublist ''Instructor'' u \<longrightarrow>
    \<not> sublist ''Learner'' u \<longrightarrow> \<not> sublist ''Administrator'' u \<longrightarrow>
      role_of_uri u = TEACHING_ASSISTANT"
    by (simp add: r)
  have s: "set uris' = set uris \<longrightarrow> set (user_roles uris') = set (user_roles uris)"
    by (simp add: m)
  show ?thesis using user_roles_map [of uris] r [of u] t p s by blast
qed

theorem role_mapping_first_match_witness:
  "sublist ''TeachingAssistant''
     ''http://purl.imsglobal.org/vocab/lis/v2/membership#TeachingAssistant'' \<and>
   role_of_uri ''http://purl.imsglobal.org/vocab/lis/v2/membership#TeachingAssistant''
     = TEACHING_ASSISTANT \<and>
   user_roles [''http://purl.imsglobal.org/vocab/lis/v2/membership#Learner'',
               ''http://purl.imsglobal.org/vocab/lis/v2/membership#Instructor'']
     = [LEARNER, INSTRUCTOR] \<and>
   set (user_roles [''http://purl.imsglobal.org/vocab/lis/v2/membership#Instructor'',
                    ''http://purl.imsglobal.org/vocab/lis/v2/membership#Learner''])
     = {INSTRUCTOR, LEARNER}"
  using role_mapping_first_match
    [of "[''http://purl.imsglobal.org/vocab/lis/v2/membership#Learner'',
          ''http://purl.imsglobal.org/vocab/lis/v2/membership#Instructor'']"
        "''http://purl.imsglobal.org/vocab/lis/v2/membership#TeachingAssistant''"
        "''http://purl.imsglobal.org/vocab/lis/v2/membership#Instructor''"
        "''http://purl.imsglobal.org/vocab/lis/v2/membership#Learner''"
        "[''http://purl.imsglobal.org/vocab/lis/v2/membership#Instructor'',
          ''http://purl.imsglobal.org/vocab/lis/v2/membership#Learner'']"]
  by (simp add: role_of_uri_def sublist_code(3) insert_commute)

section \<open>Properties of the key-set cache\<close>

text \<open>
  C6, as stated, fails in its last part: a lookup after the TTL whose fetch fails leaves
  the stale entry in the cache (and returns the empty key set instead of it).
\<close>

theorem jwks_stale_entry_counterexample:
  "platform_jwks_cache
     (fst (snd (get_platform_jwks (Settings sample_env_vars) fetch_fails 3701 3702
        \<lparr> platform_jwks_cache =
            [''https://moodle.example'' \<mapsto> \<lparr> jwks = sample_jwks, timestamp = 101 \<rparr>],
          cache_expiry = 3600 \<rparr> ''https://moodle.example'')))
     ''https://moodle.example''
   = Some \<lparr> jwks = sample_jwks, timestamp = 101 \<rparr>"
  by (simp add: get_platform_jwks_def fetch_fails_def)

text \<open>
  C6, amended: with the TTL of 3600 seconds, (1) an entry is returned without a fetch
  while \<open>now - timestamp < 3600\<close>, the validator unchanged; (2) a lookup that fetches
  nothing returned such an entry; (3) a lookup that finds a stale entry performs exactly
  one fetch, and replaces the entry by the fetched key set with the new timestamp when
  the fetch succeeds, while a failed fetch returns the empty key set and leaves the
  validator as it was; (4) after a lookup that fetched with success, a second lookup for
  the same issuer less than 3600 seconds after the entry was written fetches nothing and
  returns the same key set.
\<close>

theorem jwks_cache_ttl:
  assumes "cache_expiry self = 3600"
  shows
  "(platform_jwks_cache self iss = Some c \<longrightarrow> t - timestamp c < 3600 \<longrightarrow>
      get_platform_jwks cfg g t t' self iss = (jwks c, self, [])) \<and>
   (snd (snd (get_platform_jwks cfg g t t' self iss)) = [] \<longrightarrow>
      (\<exists>c. platform_jwks_cache self iss = Some c \<and> t - timestamp c < 3600 \<and>
           fst (get_platform_jwks cfg g t t' self iss) = jwks c)) \<and>
   (platform_jwks_cache self iss = Some c \<longrightarrow> 3600 \<le> t - timestamp c \<longrightarrow>
      snd (snd (get_platform_jwks cfg g t t' self iss)) = [jwks_url_of cfg iss] \<and>
      (g (jwks_url_of cfg iss) = Inr j \<longrightarrow>
         fst (get_platform_jwks cfg g t t' self iss) = j \<and>
         platform_jwks_cache (fst (snd (get_platform_jwks cfg g t t' self iss))) iss
           = Some \<lparr> jwks = j, timestamp = t' \<rparr>) \<and>
      (g (jwks_url_of cfg iss) = Inl e \<longrightarrow>
         get_platform_jwks cfg g t t' self iss
           = (JObj [(''keys'', JList [])], self, [jwks_url_of cfg iss]))) \<and>
   (g (jwks_url_of cfg iss) = Inr j \<longrightarrow>
    snd (snd (get_platform_jwks cfg g t t' self iss)) = [jwks_url_of cfg iss] \<longrightarrow>
    tb - t' < 3600 \<longrightarrow>
      get_platform_jwks cfg gb tb tb' (fst (snd (get_platform_jwks cfg g t t' self iss))) iss
        = (j, fst (snd (get_platform_jwks cfg g t t' self iss)), []))"
  using assms
  by (auto simp: get_platform_jwks_def Let_def split: option.splits sum.splits if_splits)

theorem jwks_cache_ttl_witness:
  "get_platform_jwks (Settings sample_env_vars) fetch_fails 3700 3701
     \<lparr> platform_jwks_cache = [''https://moodle.example'' \<mapsto> \<lparr> jwks = sample_jwks, timestamp = 101 \<rparr>],
       cache_expiry = 3600 \<rparr> ''https://moodle.example''
   = (sample_jwks,
      \<lparr> platform_jwks_cache = [''https://moodle.example'' \<mapsto> \<lparr> jwks = sample_jwks, timestamp = 101 \<rparr>],
        cache_expiry = 3600 \<rparr>, []) \<and>
   (\<exists>c. platform_jwks_cache
          \<lparr> platform_jwks_cache =
              [''https://moodle.example'' \<mapsto> \<lparr> jwks = sample_jwks, timestamp = 101 \<rparr>],
            cache_expiry = 3600 \<rparr> ''https://moodle.example'' = Some c \<and>
        3700 - timestamp c < 3600) \<and>
   snd (snd (get_platform_jwks (Settings sample_env_vars) fetch_ok 3701 3702
     \<lparr> platform_jwks_cache = [''https://moodle.example'' \<mapsto> \<lparr> jwks = sample_jwks, timestamp = 101 \<rparr>],
       cache_expiry = 3600 \<rparr> ''https://moodle.example''))
   = [''CHANGE_ME_MOODLE_WILL_PROVIDE_THIS''] \<and>
   platform_jwks_cache (fst (snd (get_platform_jwks (Settings sample_env_vars) fetch_ok 3701 3702
     \<lparr> platform_jwks_cache = [''https://moodle.example'' \<mapsto> \<lparr> jwks = sample_jwks, timestamp = 101 \<rparr>],
       cache_expiry = 3600 \<rparr> ''https://moodle.example''))) ''https://moodle.example''
   = Some \<lparr> jwks = sample_jwks, timestamp = 3702 \<rparr> \<and>
   get_platform_jwks (Settings sample_env_vars) fetch_fails 3701 3702
     \<lparr> platform_jwks_cache = [''https://moodle.example'' \<mapsto> \<lparr> jwks = sample_jwks, timestamp = 101 \<rparr>],
       cache_expiry = 3600 \<rparr> ''https://moodle.example''
   = (JObj [(''keys'', JList [])],
      \<lparr> platform_jwks_cache = [''https://moodle.example'' \<mapsto> \<lparr> jwks = sample_jwks, timestamp = 101 \<rparr>],
        cache_expiry = 3600 \<rparr>, [''CHANGE_ME_MOODLE_WILL_PROVIDE_THIS'']) \<and>
   get_platform_jwks (Settings sample_env_vars) fetch_fails 3700 3701
     (fst (snd (get_platform_jwks (Settings sample_env_vars) fetch_ok 100 101 LTI13Validator_init
                  ''https://moodle.example''))) ''https://moodle.example''
   = (sample_jwks,
      fst (snd (get_platform_jwks (Settings sample_env_vars) fetch_ok 100 101 LTI13Validator_init
                  ''https://moodle.example'')), [])"
proof -
  let ?cfg = "Settings sample_env_vars"
  let ?iss = "''https://moodle.example''"
  let ?c = "\<lparr> jwks = sample_jwks, timestamp = 101 \<rparr>"
  let ?s1 = "\<lparr> platform_jwks_cache = [?iss \<mapsto> ?c], cache_expiry = 3600 \<rparr>"
  have u: "jwks_url_of ?cfg ?iss = ''CHANGE_ME_MOODLE_WILL_PROVIDE_THIS''"
    by (simp add: jwks_url_of_def Settings_def getenv_def sample_env_vars_def lower_def lower_char_def)
  have e: "cache_expiry ?s1 = 3600" by simp
  have k: "cache_expiry LTI13Validator_init = 3600" by (simp add: LTI13Validator_init_def)
  have entry: "platform_jwks_cache ?s1 ?iss = Some ?c" by simp
  have fresh: "(3700::real) - timestamp ?c < 3600" by simp
  have stale: "(3600::real) \<le> 3701 - timestamp ?c" by simp
  have ok: "fetch_ok (jwks_url_of ?cfg ?iss) = Inr sample_jwks" by (simp add: fetch_ok_def)
  have bad: "fetch_fails (jwks_url_of ?cfg ?iss) = Inl ''connection refused''"
    by (simp add: fetch_fails_def)
  note hit = jwks_cache_ttl [OF e, where iss = ?iss and c = ?c and t = 3700 and cfg = ?cfg
      and g = fetch_fails and t' = 3701]
  from hit [THEN conjunct1, THEN mp, OF entry, THEN mp, OF fresh]
  have a: "get_platform_jwks ?cfg fetch_fails 3700 3701 ?s1 ?iss = (sample_jwks, ?s1, [])"
    by simp
  from a have nofetch: "snd (snd (get_platform_jwks ?cfg fetch_fails 3700 3701 ?s1 ?iss)) = []"
    by simp
  from hit [THEN conjunct2, THEN conjunct1, THEN mp, OF nofetch]
  have b: "\<exists>c. platform_jwks_cache ?s1 ?iss = Some c \<and> 3700 - timestamp c < 3600"
    by blast
  note refresh = jwks_cache_ttl [OF e, where iss = ?iss and c = ?c and t = 3701 and cfg = ?cfg
      and g = fetch_ok and t' = 3702 and j = sample_jwks]
  note r3 = refresh [THEN conjunct2, THEN conjunct2, THEN conjunct1, THEN mp, OF entry,
      THEN mp, OF stale]
  from r3 have c1: "snd (snd (get_platform_jwks ?cfg fetch_ok 3701 3702 ?s1 ?iss))
      = [''CHANGE_ME_MOODLE_WILL_PROVIDE_THIS'']"
    using u by simp
  from r3 [THEN conjunct2, THEN conjunct1, THEN mp, OF ok]
  have c2: "platform_jwks_cache (fst (snd (get_platform_jwks ?cfg fetch_ok 3701 3702 ?s1 ?iss))) ?iss
      = Some \<lparr> jwks = sample_jwks, timestamp = 3702 \<rparr>"
    by (rule conjunct2)
  note failed = jwks_cache_ttl [OF e, where iss = ?iss and c = ?c and t = 3701 and cfg = ?cfg
      and g = fetch_fails and t' = 3702 and e = "''connection refused''"]
  from failed [THEN conjunct2, THEN conjunct2, THEN conjunct1, THEN mp, OF entry,
      THEN mp, OF stale, THEN conjunct2, THEN conjunct2, THEN mp, OF bad]
  have d: "get_platform_jwks ?cfg fetch_fails 3701 3702 ?s1 ?iss
      = (JObj [(''keys'', JList [])], ?s1, [''CHANGE_ME_MOODLE_WILL_PROVIDE_THIS''])"
    using u by simp
  have first: "snd (snd (get_platform_jwks ?cfg fetch_ok 100 101 LTI13Validator_init ?iss))
      = [jwks_url_of ?cfg ?iss]"
    by (simp add: get_platform_jwks_def LTI13Validator_init_def fetch_ok_def)
  have window: "(3700::real) - 101 < 3600" by simp
  note again = jwks_cache_ttl [OF k, where iss = ?iss and t = 100 and cfg = ?cfg
      and g = fetch_ok and t' = 101 and j = sample_jwks and tb = 3700 and gb = fetch_fails
      and tb' = 3701]
  from again [THEN conjunct2, THEN conjunct2, THEN conjunct2, THEN mp, OF ok, THEN mp, OF first,
      THEN mp, OF window]
  have f: "get_platform_jwks ?cfg fetch_fails 3700 3701
      (fst (snd (get_platform_jwks ?cfg fetch_ok 100 101 LTI13Validator_init ?iss))) ?iss
      = (sample_jwks, fst (snd (get_platform_jwks ?cfg fetch_ok 100 101 LTI13Validator_init ?iss)), [])" .
  show ?thesis using a b c1 c2 d f by (intro conjI)
qed

text \<open>
  C9: when no fresh entry exists and the fetch fails, \<open>get_platform_jwks\<close> returns the
  empty key set after one fetch and leaves the validator, hence the cache, as it was;
  a later call for the same issuer fetches again. In every call, the cache either stays
  as it was or gains the entry of a fetch that succeeded.
\<close>

theorem jwks_failed_fetch_not_cached:
  assumes "\<forall>c. platform_jwks_cache self iss = Some c \<longrightarrow> cache_expiry self \<le> ta - timestamp c"
    and "ga (jwks_url_of cfg iss) = Inl e"
    and "ta \<le> tb"
  shows "get_platform_jwks cfg ga ta ta' self iss
           = (JObj [(''keys'', JList [])], self, [jwks_url_of cfg iss]) \<and>
         snd (snd (get_platform_jwks cfg gb tb tb'
                     (fst (snd (get_platform_jwks cfg ga ta ta' self iss))) iss))
           = [jwks_url_of cfg iss] \<and>
         (platform_jwks_cache (fst (snd (get_platform_jwks cfg g t t' other iss)))
            = platform_jwks_cache other \<or>
          (\<exists>j. g (jwks_url_of cfg iss) = Inr j \<and>
               platform_jwks_cache (fst (snd (get_platform_jwks cfg g t t' other iss)))
                 = (platform_jwks_cache other)(iss \<mapsto> \<lparr> jwks = j, timestamp = t' \<rparr>)))"
  using assms
  by (auto simp: get_platform_jwks_def Let_def split: option.splits sum.splits if_splits)

theorem jwks_failed_fetch_not_cached_witness:
  "get_platform_jwks (Settings sample_env_vars) fetch_fails 100 101 LTI13Validator_init
     ''https://moodle.example''
   = (JObj [(''keys'', JList [])], LTI13Validator_init, [''CHANGE_ME_MOODLE_WILL_PROVIDE_THIS'']) \<and>
   snd (snd (get_platform_jwks (Settings sample_env_vars) fetch_ok 102 103 LTI13Validator_init
     ''https://moodle.example''))
   = [''CHANGE_ME_MOODLE_WILL_PROVIDE_THIS'']"
proof -
  let ?cfg = "Settings sample_env_vars"
  let ?iss = "''https://moodle.example''"
  have u: "jwks_url_of ?cfg ?iss = ''CHANGE_ME_MOODLE_WILL_PROVIDE_THIS''"
    by (simp add: jwks_url_of_def Settings_def getenv_def sample_env_vars_def lower_def lower_char_def)
  have a: "\<forall>c. platform_jwks_cache LTI13Validator_init ?iss = Some c \<longrightarrow>
             cache_expiry LTI13Validator_init \<le> 100 - timestamp c"
    by (simp add: LTI13Validator_init_def)
  have f: "fetch_fails (jwks_url_of ?cfg ?iss) = Inl ''connection refused''"
    by (simp add: fetch_fails_def)
  have t: "(100::real) \<le> 102" by simp
  note r = jwks_failed_fetch_not_cached [where self = LTI13Validator_init and iss = ?iss
        and ta = 100 and ga = fetch_fails and cfg = ?cfg and e = "''connection refused''"
        and tb = 102 and ta' = 101 and gb = fetch_ok and tb' = 103, OF a f t]
  from r have r1: "get_platform_jwks ?cfg fetch_fails 100 101 LTI13Validator_init ?iss
      = (JObj [(''keys'', JList [])], LTI13Validator_init, [jwks_url_of ?cfg ?iss])"
    by (rule conjunct1)
  from r [THEN conjunct2] have r2: "snd (snd (get_platform_jwks ?cfg fetch_ok 102 103
      (fst (snd (get_platform_jwks ?cfg fetch_fails 100 101 LTI13Validator_init ?iss))) ?iss))
      = [jwks_url_of ?cfg ?iss]"
    by (rule conjunct1)
  show ?thesis using r2 unfolding r1 by (simp add: u)
qed


section \<open>Properties of the access-token slot\<close>

lemma get_access_token_cached:
  "cached_token_usable self (t_cached env) \<Longrightarrow>
     get_access_token cfg rt env self = (Inr (access_token self), self, [])"
  by (simp add: get_access_token_def)

lemma get_access_token_calls_cached:
  "\<forall>env \<in> set envs. cached_token_usable self (t_cached env) \<Longrightarrow>
     get_access_token_calls cfg rt envs self
       = (replicate (length envs) (Inr (access_token self)), self, [])"
  by (induction envs) (simp_all add: get_access_token_cached)

lemma get_access_token_miss_sent:
  assumes "\<not> cached_token_usable self (t_cached env)"
    and "create_tool_jwt cfg (sign env) (t_iat env) (client_assertion_payload cfg (t_jti env)) = Inr a"
  shows "length (snd (snd (get_access_token cfg rt env self))) = 1"
  using assms
  by (simp add: get_access_token_def Let_def split: sum.splits option.splits)

lemma get_access_token_success:
  assumes "get_access_token cfg rt env self = (Inr tok, self1, sent)"
    and "\<not> cached_token_usable self (t_cached env)"
  shows "length sent = 1 \<and> access_token self1 = tok \<and>
         (\<exists>n. token_expiry self1 = Some (t_expiry env + real_of_int n))"
  using assms
  by (auto simp: get_access_token_def Let_def split: sum.splits option.splits)

text \<open>
  C1 asks that the client assertion sent to the token endpoint carry \<open>iss\<close> and \<open>sub\<close> equal
  to the client id, \<open>aud\<close> equal to the token endpoint, a \<open>jti\<close> unique per call and an
  expiry about an hour after issuance. Evaluated on a deployment whose client id, tool
  URL, platform issuer and token endpoint differ, with no token cached: whatever the
  encoder, the claims of the assertion sent have \<open>iss\<close> equal to the tool URL and \<open>aud\<close>
  equal to the platform issuer, since \<open>create_tool_jwt\<close> overwrites what
  \<open>get_access_token\<close> set; \<open>sub\<close> is the client id, \<open>exp\<close> is \<open>iat + 3600\<close>, and \<open>jti\<close> is the
  clock in whole seconds.
\<close>

theorem client_assertion_claims_overwritten:
  "snd (snd (get_access_token (Settings sample_env_vars) rt
       \<lparr> sign = (\<lambda>path claims headers. Inr (encode claims)), post = endpoint,
         t_cached = 1700000000, t_jti = 1700000000, t_iat = 1700000000, t_expiry = 1700000001 \<rparr>
       LTI13GradeService_init))
   = [\<lparr> req_url = ''https://moodle.example/mod/lti/token.php'',
        req_data =
          [(''grant_type'', JStr ''client_credentials''),
           (''client_assertion_type'',
            JStr ''urn:ietf:params:oauth:client-assertion-type:jwt-bearer''),
           (''client_assertion'',
            JStr (encode [(''iss'', JStr ''https://tool.example''),
                          (''sub'', JStr ''client-123''),
                          (''aud'', JStr ''https://moodle.example''),
                          (''jti'', JStr ''lti-service-token-1700000000''),
                          (''iat'', JInt 1700000000),
                          (''exp'', JInt 1700003600)])),
           (''scope'', JStr ''https://purl.imsglobal.org/spec/lti-ags/scope/score'')],
        req_headers = [(''Content-Type'', ''application/x-www-form-urlencoded'')] \<rparr>] \<and>
   LTI_CLIENT_ID (Settings sample_env_vars) = ''client-123''"
proof -
  have j: "str_int 1700000000 = ''1700000000''"
    by (simp add: str_int_def str_nat.simps digit_char_def)
  have c: "\<not> cached_token_usable LTI13GradeService_init 1700000000"
    by (simp add: cached_token_usable_def LTI13GradeService_init_def)
  show ?thesis
    by (simp add: get_access_token_def c create_tool_jwt_def tool_jwt_claims_def Let_def
        client_assertion_payload_def Settings_def sample_env_vars_def getenv_def py_int_def j
        split: sum.splits option.splits)
qed

text \<open>
  C7, as stated, fails: the slot is used only when \<open>self.access_token\<close> and
  \<open>self.token_expiry\<close> are truthy. When the endpoint grants the empty string for an hour,
  the slot holds an entry that expires at 4600, and a second call at 2000, before that
  expiry, sends a second request.
\<close>

theorem token_reuse_counterexample:
  "fst (snd (get_access_token (Settings sample_env_vars) sample_runtime
       ((sample_ags_env 1000)
          \<lparr> post := (\<lambda>request. Inr (JObj [(''access_token'', JStr ''''),
                                             (''expires_in'', JInt 3600)])) \<rparr>)
       LTI13GradeService_init))
     = \<lparr> access_token = JStr '''', token_expiry = Some 4600 \<rparr> \<and>
   fst (get_access_token_calls (Settings sample_env_vars) sample_runtime
       [(sample_ags_env 1000)
          \<lparr> post := (\<lambda>request. Inr (JObj [(''access_token'', JStr ''''),
                                             (''expires_in'', JInt 3600)])) \<rparr>,
        (sample_ags_env 2000)
          \<lparr> post := (\<lambda>request. Inr (JObj [(''access_token'', JStr ''''),
                                             (''expires_in'', JInt 3600)])) \<rparr>]
       LTI13GradeService_init)
     = [Inr (JStr ''''), Inr (JStr '''')] \<and>
   length (snd (snd (get_access_token_calls (Settings sample_env_vars) sample_runtime
       [(sample_ags_env 1000)
          \<lparr> post := (\<lambda>request. Inr (JObj [(''access_token'', JStr ''''),
                                             (''expires_in'', JInt 3600)])) \<rparr>,
        (sample_ags_env 2000)
          \<lparr> post := (\<lambda>request. Inr (JObj [(''access_token'', JStr ''''),
                                             (''expires_in'', JInt 3600)])) \<rparr>]
       LTI13GradeService_init))) = 2"
  by (simp add: get_access_token_def cached_token_usable_def create_tool_jwt_def
      sample_ags_env_def dyn_item_def dict_get_default_def LTI13GradeService_init_def Let_def)

text \<open>
  C7, amended: let a call that is not served from the slot succeed with a token \<open>tok\<close>
  that is truthy (as the source's guard tests it) and store a non-zero expiry \<open>expiry\<close>.
  Then that call sent exactly one request, and it followed by any calls made before
  \<open>expiry\<close> returns \<open>tok\<close> every time and sends nothing more. A call at or after \<open>expiry\<close>
  sends one request, provided the assertion can be signed. No call sends a request while
  the guard finds a usable token in the slot.
\<close>

theorem token_reuse:
  assumes first: "get_access_token cfg rt env_a self_a = (Inr tok, self_b, sent)"
    and miss: "\<not> cached_token_usable self_a (t_cached env_a)"
    and tok: "truthy tok"
    and ex: "token_expiry self_b = Some expiry" "expiry \<noteq> 0"
    and before: "\<forall>env \<in> set envs. t_cached env < expiry"
  shows "get_access_token_calls cfg rt (env_a # envs) self_a
           = (replicate (Suc (length envs)) (Inr tok), self_b, sent) \<and>
         length sent = 1 \<and>
         (expiry \<le> t_cached env' \<longrightarrow>
          create_tool_jwt cfg (sign env') (t_iat env') (client_assertion_payload cfg (t_jti env'))
            = Inr a \<longrightarrow>
            length (snd (snd (get_access_token cfg rt env' self_b))) = 1) \<and>
         (cached_token_usable self (t_cached env) \<longrightarrow>
            get_access_token cfg rt env self = (Inr (access_token self), self, []))"
proof -
  from get_access_token_success [OF first miss]
  have s: "length sent = 1" and a: "access_token self_b = tok" by simp_all
  have "\<forall>env \<in> set envs. cached_token_usable self_b (t_cached env)"
    using before tok ex a by (simp add: cached_token_usable_def)
  then have rest: "get_access_token_calls cfg rt envs self_b
       = (replicate (length envs) (Inr tok), self_b, [])"
    using get_access_token_calls_cached [of envs self_b cfg rt] a by simp
  have all: "get_access_token_calls cfg rt (env_a # envs) self_a
           = (replicate (Suc (length envs)) (Inr tok), self_b, sent)"
    by (simp add: first rest)
  have after: "expiry \<le> t_cached env' \<longrightarrow>
          create_tool_jwt cfg (sign env') (t_iat env') (client_assertion_payload cfg (t_jti env'))
            = Inr a \<longrightarrow>
            length (snd (snd (get_access_token cfg rt env' self_b))) = 1"
  proof (intro impI)
    assume "expiry \<le> t_cached env'"
      and j: "create_tool_jwt cfg (sign env') (t_iat env')
                (client_assertion_payload cfg (t_jti env')) = Inr a"
    then have "\<not> cached_token_usable self_b (t_cached env')"
      using ex by (simp add: cached_token_usable_def)
    then show "length (snd (snd (get_access_token cfg rt env' self_b))) = 1"
      using j by (rule get_access_token_miss_sent)
  qed
  show ?thesis using all s after get_access_token_cached [of self env cfg rt] by blast
qed


theorem token_reuse_witness:
  "get_access_token_calls (Settings sample_env_vars) sample_runtime
     [sample_ags_env 1000, sample_ags_env 2000, sample_ags_env 4599] LTI13GradeService_init
   = ([Inr (JStr ''tok-1''), Inr (JStr ''tok-1''), Inr (JStr ''tok-1'')],
      \<lparr> access_token = JStr ''tok-1'', token_expiry = Some 4600 \<rparr>,
      snd (snd (get_access_token (Settings sample_env_vars) sample_runtime (sample_ags_env 1000)
                  LTI13GradeService_init))) \<and>
   length (snd (snd (get_access_token (Settings sample_env_vars) sample_runtime (sample_ags_env 1000)
                  LTI13GradeService_init))) = 1 \<and>
   length (snd (snd (get_access_token (Settings sample_env_vars) sample_runtime (sample_ags_env 4600)
                  \<lparr> access_token = JStr ''tok-1'', token_expiry = Some 4600 \<rparr>))) = 1 \<and>
   get_access_token (Settings sample_env_vars) sample_runtime (sample_ags_env 4599)
       \<lparr> access_token = JStr ''tok-1'', token_expiry = Some 4600 \<rparr>
     = (Inr (JStr ''tok-1''), \<lparr> access_token = JStr ''tok-1'', token_expiry = Some 4600 \<rparr>, [])"
proof -
  let ?cfg = "Settings sample_env_vars"
  let ?s1 = "\<lparr> access_token = JStr ''tok-1'', token_expiry = Some 4600 \<rparr>"
  let ?sent = "snd (snd (get_access_token ?cfg sample_runtime (sample_ags_env 1000)
                  LTI13GradeService_init))"
  have miss: "\<not> cached_token_usable LTI13GradeService_init (t_cached (sample_ags_env 1000))"
    by (simp add: cached_token_usable_def LTI13GradeService_init_def)
  have first: "get_access_token ?cfg sample_runtime (sample_ags_env 1000) LTI13GradeService_init
                 = (Inr (JStr ''tok-1''), ?s1, ?sent)"
    using miss
    by (simp add: get_access_token_def create_tool_jwt_def sample_ags_env_def dyn_item_def
        dict_get_default_def LTI13GradeService_init_def Let_def)
  have j: "create_tool_jwt ?cfg (sign (sample_ags_env 4600)) (t_iat (sample_ags_env 4600))
             (client_assertion_payload ?cfg (t_jti (sample_ags_env 4600)))
           = Inr ''header.claims.signature''"
    by (simp add: create_tool_jwt_def sample_ags_env_def)
  have u: "cached_token_usable ?s1 (t_cached (sample_ags_env 4599))"
    by (simp add: cached_token_usable_def sample_ags_env_def)
  have b: "\<forall>env \<in> set [sample_ags_env 2000, sample_ags_env 4599]. t_cached env < 4600"
    by (simp add: sample_ags_env_def)
  show ?thesis
    using token_reuse [OF first miss _ _ _ b, where env' = "sample_ags_env 4600"
        and a = "''header.claims.signature''" and self = ?s1 and env = "sample_ags_env 4599"] j u
    by (simp del: get_access_token_calls.simps add: sample_ags_env_def)
qed


section \<open>Properties of the two validators\<close>

lemma except_shape:
  "\<exists>m. validate_jwt_token_except rt e = [(''valid'', JBool False), (''error'', JStr m)]"
  by (cases e) (simp_all add: validate_jwt_token_except_def)

lemma verify_with_jwks_shape:
  assumes "verify_with_jwks cfg rt env token audience header payload iss doc = Inr r"
  shows "(DEBUG cfg \<and> r = [(''valid'', JBool True), (''payload'', JObj payload),
            (''warnings'', JList [JStr ''Signature verification skipped in debug mode''])]) \<or>
         (\<exists>k p. decode_verified env token k (audience_or cfg audience) iss = Inr p \<and>
            r = [(''valid'', JBool True), (''payload'', JObj p), (''warnings'', JList [])])"
  using assms
  by (auto simp: verify_with_jwks_def Let_def split: sum.splits if_splits option.splits)

lemma validate_jwt_token_try_shape:
  assumes "fst (validate_jwt_token_try cfg rt env self token audience) = Inr r"
  shows "\<exists>payload iss.
           decode_unverified env token = Inr payload \<and> dict_has payload ''iss'' \<and>
           dict_has payload ''aud'' \<and> dict_get payload ''iss'' = JStr iss \<and>
           ((DEBUG cfg \<and> r = [(''valid'', JBool True), (''payload'', JObj payload),
               (''warnings'', JList [JStr ''Signature verification skipped in debug mode''])]) \<or>
            (\<exists>k p. decode_verified env token k (audience_or cfg audience) iss = Inr p \<and>
               r = [(''valid'', JBool True), (''payload'', JObj p), (''warnings'', JList [])]))"
  using assms
  by (auto simp: validate_jwt_token_try_def split: sum.splits if_splits jval.splits prod.splits
      dest: verify_with_jwks_shape)

lemma validate_jwt_token_fst:
  "fst (validate_jwt_token cfg rt env self token audience) =
     (case fst (validate_jwt_token_try cfg rt env self token audience) of
        Inr r \<Rightarrow> r | Inl e \<Rightarrow> validate_jwt_token_except rt e)"
  by (simp add: validate_jwt_token_def split: prod.splits sum.splits)

lemma validate_jwt_token_shape:
  "(\<exists>m. fst (validate_jwt_token cfg rt env self token audience)
          = [(''valid'', JBool False), (''error'', JStr m)]) \<or>
   (\<exists>payload iss.
           decode_unverified env token = Inr payload \<and> dict_has payload ''iss'' \<and>
           dict_has payload ''aud'' \<and> dict_get payload ''iss'' = JStr iss \<and>
           ((DEBUG cfg \<and> fst (validate_jwt_token cfg rt env self token audience)
                = [(''valid'', JBool True), (''payload'', JObj payload),
               (''warnings'', JList [JStr ''Signature verification skipped in debug mode''])]) \<or>
            (\<exists>k p. decode_verified env token k (audience_or cfg audience) iss = Inr p \<and>
               fst (validate_jwt_token cfg rt env self token audience)
                 = [(''valid'', JBool True), (''payload'', JObj p), (''warnings'', JList [])])))"
proof (cases "fst (validate_jwt_token_try cfg rt env self token audience)")
  case (Inl e)
  then show ?thesis using except_shape [of rt e] by (simp add: validate_jwt_token_fst)
next
  case (Inr r)
  then show ?thesis
    using validate_jwt_token_try_shape [OF Inr] by (simp add: validate_jwt_token_fst)
qed

lemma validate_jwt_token_empty_keys:
  assumes "get_unverified_header env token = Inr header"
    and "decode_unverified env token = Inr payload"
    and "map_of payload ''iss'' = Some (JStr iss)"
    and "dict_has payload ''aud''"
    and "fst (get_platform_jwks cfg (http_get env) (t_check env) (t_store env) self iss) = JObj d"
    and "\<not> truthy (dict_get d ''keys'')"
  shows "fst (validate_jwt_token cfg rt env self token audience) =
           (if DEBUG cfg
            then [(''valid'', JBool True), (''payload'', JObj payload),
                  (''warnings'', JList [JStr ''Signature verification skipped in debug mode''])]
            else [(''valid'', JBool False),
                  (''error'', JStr ''No public keys available for signature verification'')])"
proof -
  obtain self' fetched where g:
    "get_platform_jwks cfg (http_get env) (t_check env) (t_store env) self iss
       = (JObj d, self', fetched)"
    using assms(5)
    by (cases "get_platform_jwks cfg (http_get env) (t_check env) (t_store env) self iss") auto
  have v: "verify_with_jwks cfg rt env token audience header payload iss (JObj d) =
             (if DEBUG cfg
              then Inr [(''valid'', JBool True), (''payload'', JObj payload),
                    (''warnings'', JList [JStr ''Signature verification skipped in debug mode''])]
              else Inl (ValueError ''No public keys available for signature verification''))"
    using assms(6) by (simp add: verify_with_jwks_def dyn_get_def)
  have t: "fst (validate_jwt_token_try cfg rt env self token audience)
             = verify_with_jwks cfg rt env token audience header payload iss (JObj d)"
    using assms(1-4) g by (simp add: validate_jwt_token_try_def dict_has_def dict_get_def)
  show ?thesis
    by (simp add: validate_jwt_token_fst t v validate_jwt_token_except_def exc_str_def)
qed


lemma validate_lti_message_result:
  assumes "validate_lti_message cfg rt now p = Inr r"
  shows "\<exists>errs warns e i.
           r = [(''valid'', JBool (errs = [])), (''errors'', JList (map JStr errs)),
                (''warnings'', JList (map JStr warns))] \<and>
           num_of (dict_get_default p ''exp'' (JInt 0)) = Some e \<and>
           num_of (dict_get_default p ''iat'' (JInt 0)) = Some i \<and>
           (''Token has expired'' \<in> set errs \<longleftrightarrow> e < py_int now) \<and>
           (''Token issued in the future'' \<in> set errs \<longleftrightarrow> py_int now + 60 < i) \<and>
           (''Invalid deployment ID: '' @
              py_str rt (dict_get p ''https://purl.imsglobal.org/spec/lti/claim/deployment_id'')
              \<in> set errs \<longleftrightarrow>
            \<not> py_eq (dict_get p ''https://purl.imsglobal.org/spec/lti/claim/deployment_id'')
                 (JStr (LTI_DEPLOYMENT_ID cfg))) \<and>
           (''Missing required claims: '' @
              repr_str_list (filter (\<lambda>claim. \<not> dict_has p claim) required_claims) \<in> set errs \<longleftrightarrow>
            filter (\<lambda>claim. \<not> dict_has p claim) required_claims \<noteq> [])"
proof -
  define missing where "missing = filter (\<lambda>claim. \<not> dict_has p claim) required_claims"
  define dep where "dep = dict_get p ''https://purl.imsglobal.org/spec/lti/claim/deployment_id''"
  define errs2 where "errs2 =
      (if missing \<noteq> [] then [''Missing required claims: '' @ repr_str_list missing] else []) @
      (if \<not> py_eq dep (JStr (LTI_DEPLOYMENT_ID cfg))
       then [''Invalid deployment ID: '' @ py_str rt dep] else [])"
  define errs where "errs = (\<lambda>e i. errs2 @
      (if e < py_int now then [''Token has expired''] else []) @
      (if i > py_int now + 60 then [''Token issued in the future''] else []))"
  obtain W where eq: "validate_lti_message cfg rt now p =
      (case W of
         Inl x \<Rightarrow> Inl x
       | Inr warns \<Rightarrow>
           (case num_of (dict_get_default p ''exp'' (JInt 0)) of
              None \<Rightarrow> Inl (TypeError ''<'' (dict_get_default p ''exp'' (JInt 0)))
            | Some e \<Rightarrow>
                (case num_of (dict_get_default p ''iat'' (JInt 0)) of
                   None \<Rightarrow> Inl (TypeError ''>'' (dict_get_default p ''iat'' (JInt 0)))
                 | Some i \<Rightarrow>
                     Inr [(''valid'', JBool (errs e i = [])),
                          (''errors'', JList (map JStr (errs e i))),
                          (''warnings'', JList (map JStr warns))])))"
    unfolding validate_lti_message_def Let_def errs_def errs2_def missing_def dep_def
    by (simp cong: sum.case_cong option.case_cong)
  from assms eq obtain warns e i where
    e: "num_of (dict_get_default p ''exp'' (JInt 0)) = Some e" and
    i: "num_of (dict_get_default p ''iat'' (JInt 0)) = Some i" and
    r: "r = [(''valid'', JBool (errs e i = [])), (''errors'', JList (map JStr (errs e i))),
             (''warnings'', JList (map JStr warns))]"
    by (auto split: sum.splits option.splits)
  have m1: "''Token has expired'' \<in> set (errs e i) \<longleftrightarrow> e < py_int now"
    by (simp add: errs_def errs2_def)
  have m2: "''Token issued in the future'' \<in> set (errs e i) \<longleftrightarrow> py_int now + 60 < i"
    by (simp add: errs_def errs2_def)
  have m3: "''Invalid deployment ID: '' @ py_str rt dep \<in> set (errs e i) \<longleftrightarrow>
            \<not> py_eq dep (JStr (LTI_DEPLOYMENT_ID cfg))"
    by (simp add: errs_def errs2_def)
  have m4: "''Missing required claims: '' @ repr_str_list missing \<in> set (errs e i) \<longleftrightarrow>
            missing \<noteq> []"
    by (simp add: errs_def errs2_def)
  show ?thesis
    using e i r m1 m2 m3 m4 unfolding missing_def dep_def by blast
qed


lemma default_debug: "DEBUG (Settings Map.empty)"
  by (simp add: Settings_def getenv_def lower_def lower_char_def)

lemma default_settings:
  "Settings Map.empty =
     \<lparr> DEBUG = True,
       LTI_CLIENT_ID = ''CHANGE_ME_MOODLE_WILL_PROVIDE_THIS'',
       LTI_DEPLOYMENT_ID = ''CHANGE_ME_MOODLE_WILL_PROVIDE_THIS'',
       LTI_TOOL_URL = ''http://localhost:8000'',
       LTI_PLATFORM_ISSUER = ''CHANGE_ME_MOODLE_WILL_PROVIDE_THIS'',
       LTI_PLATFORM_TOKEN_URL = ''CHANGE_ME_MOODLE_WILL_PROVIDE_THIS'',
       LTI_PLATFORM_JWKS_URL = ''CHANGE_ME_MOODLE_WILL_PROVIDE_THIS'',
       LTI_PRIVATE_KEY_PATH = ''keys/private.pem'',
       LTI_KEY_ID = ''lti-key-1'' \<rparr>"
  by (simp add: Settings_def getenv_def lower_def lower_char_def)

lemma sample_no_keys:
  "fst (get_platform_jwks cfg fetch_fails tc ts LTI13Validator_init iss) = JObj [(''keys'', JList [])]"
  by (simp add: get_platform_jwks_def LTI13Validator_init_def fetch_fails_def)

lemma sample_skip:
  "fst (validate_jwt_token (Settings Map.empty) sample_runtime
          (sample_jwt_env (sample_payload ex) fetch_fails) LTI13Validator_init ''token'' None)
     = [(''valid'', JBool True), (''payload'', JObj (sample_payload ex)),
        (''warnings'', JList [JStr ''Signature verification skipped in debug mode''])]"
proof -
  have h: "get_unverified_header (sample_jwt_env (sample_payload ex) fetch_fails) ''token''
             = Inr [(''alg'', JStr ''RS256''), (''kid'', JStr ''k1'')]"
    by (simp add: sample_jwt_env_def)
  have d: "decode_unverified (sample_jwt_env (sample_payload ex) fetch_fails) ''token''
             = Inr (sample_payload ex)"
    by (simp add: sample_jwt_env_def)
  have i: "map_of (sample_payload ex) ''iss'' = Some (JStr ''https://moodle.example'')"
    by (simp add: sample_payload_def)
  have a: "dict_has (sample_payload ex) ''aud''"
    by (simp add: sample_payload_def dict_has_def)
  have k: "fst (get_platform_jwks (Settings Map.empty)
                 (http_get (sample_jwt_env (sample_payload ex) fetch_fails))
                 (t_check (sample_jwt_env (sample_payload ex) fetch_fails))
                 (t_store (sample_jwt_env (sample_payload ex) fetch_fails))
                 LTI13Validator_init ''https://moodle.example'') = JObj [(''keys'', JList [])]"
    by (simp add: sample_jwt_env_def sample_no_keys)
  have e: "\<not> truthy (dict_get [(''keys'', JList [])] ''keys'')"
    by (simp add: dict_get_def)
  show ?thesis
    using validate_jwt_token_empty_keys [OF h d i a k e, of sample_runtime None]
    by (simp add: default_debug)
qed

lemma sample_lti_valid:
  "validate_lti_message (Settings Map.empty) sample_runtime 1000 (sample_payload 2000)
     = Inr [(''valid'', JBool True), (''errors'', JList []), (''warnings'', JList [])]"
  by (simp add: validate_lti_message_def Let_def required_claims_def dict_has_def dict_get_def
      dict_get_default_def py_eq_def supported_types_def py_int_def sample_payload_def
      default_settings)

lemma sample_lti_expired:
  "validate_lti_message (Settings Map.empty) sample_runtime 1000 (sample_payload 990)
     = Inr [(''valid'', JBool False), (''errors'', JList [JStr ''Token has expired'']),
            (''warnings'', JList [])]"
  by (simp add: validate_lti_message_def Let_def required_claims_def dict_has_def dict_get_def
      dict_get_default_def py_eq_def supported_types_def py_int_def sample_payload_def
      default_settings)

lemma sample_missing_iss:
  "fst (validate_jwt_token (Settings Map.empty) sample_runtime
          (sample_jwt_env [(''aud'', JStr ''client-123''), (''exp'', JInt 990)] fetch_fails)
          LTI13Validator_init ''token'' None)
     = [(''valid'', JBool False), (''error'', JStr ''Missing issuer (iss) in JWT'')]"
  by (simp add: validate_jwt_token_fst validate_jwt_token_try_def sample_jwt_env_def dict_has_def
      validate_jwt_token_except_def exc_str_def)

lemma validate_lti_message_returns:
  assumes "num_of (dict_get_default p ''exp'' (JInt 0)) = Some e"
    and "num_of (dict_get_default p ''iat'' (JInt 0)) = Some i"
    and "\<not> truthy (dict_get p ''https://purl.imsglobal.org/spec/lti/claim/target_link_uri'') \<or>
         (\<exists>uri. dict_get p ''https://purl.imsglobal.org/spec/lti/claim/target_link_uri'' = JStr uri)"
  shows "\<exists>r. validate_lti_message cfg rt now p = Inr r"
proof (cases "truthy (dict_get p ''https://purl.imsglobal.org/spec/lti/claim/target_link_uri'')")
  case False
  then show ?thesis using assms(1,2) by (simp add: validate_lti_message_def Let_def)
next
  case True
  with assms(3) obtain uri where
    "dict_get p ''https://purl.imsglobal.org/spec/lti/claim/target_link_uri'' = JStr uri" by blast
  then show ?thesis using True assms(1,2) by (simp add: validate_lti_message_def Let_def)
qed

lemma validate_lti_message_expired:
  assumes "map_of p ''exp'' = Some (JInt e)" and "e < py_int now"
    and "validate_lti_message cfg rt now p = Inr r"
  shows "dict_get r ''valid'' = JBool False \<and>
         (\<exists>errs. dict_get r ''errors'' = JList (map JStr errs) \<and> ''Token has expired'' \<in> set errs)"
proof -
  have n: "num_of (dict_get_default p ''exp'' (JInt 0)) = Some e"
    using assms(1) by (simp add: dict_get_default_def)
  from validate_lti_message_result [OF assms(3)] n assms(2) obtain errs warns where
    r: "r = [(''valid'', JBool (errs = [])), (''errors'', JList (map JStr errs)),
             (''warnings'', JList (map JStr warns))]"
    and m: "''Token has expired'' \<in> set errs"
    by auto
  from m have "errs \<noteq> []" by auto
  then show ?thesis using r m by (auto simp: dict_get_def)
qed


lemma sample_expired_try:
  "fst (validate_jwt_token_try (Settings Map.empty) sample_runtime
          (sample_jwt_env (sample_payload 990) fetch_ok) LTI13Validator_init ''token'' None)
     = Inl ExpiredSignatureError"
  by (simp add: validate_jwt_token_try_def sample_jwt_env_def sample_payload_def dict_has_def
      dict_get_def get_platform_jwks_def LTI13Validator_init_def fetch_ok_def sample_jwks_def
      verify_with_jwks_def dyn_get_def iter_values_def py_eq_def audience_or_def)

text \<open>
  C2, as stated, fails in its last part: the only flag that gates the fallback is
  \<open>settings.DEBUG\<close>, and it is on in the default configuration (\<open>os.getenv("DEBUG", "true")\<close>);
  there, a token whose issuer resolves to no keys is accepted unverified.
\<close>

theorem debug_default_counterexample:
  "DEBUG (Settings Map.empty) \<and>
   fst (validate_jwt_token (Settings Map.empty) sample_runtime
          (sample_jwt_env (sample_payload 2000) fetch_fails) LTI13Validator_init ''token'' None)
     = [(''valid'', JBool True), (''payload'', JObj (sample_payload 2000)),
        (''warnings'', JList [JStr ''Signature verification skipped in debug mode''])]"
  using default_debug sample_skip [of 2000] by simp

text \<open>
  C2, amended: for every token that decodes to a payload with a string \<open>iss\<close> and an
  \<open>aud\<close>, and whose issuer resolves to a key set with no keys, \<open>validate_jwt_token\<close>
  returns the invalid result \<open>No public keys available for signature verification\<close>
  unless \<open>settings.DEBUG\<close> is on; when it is on, the result is valid, carries the unverified
  payload and the warning \<open>Signature verification skipped in debug mode\<close>. \<open>DEBUG\<close> is on
  exactly when the environment variable \<open>DEBUG\<close>, \<open>true\<close> when unset, reads \<open>true\<close> in any
  letter case; so it is on in the default configuration.
\<close>

theorem empty_key_set_gated_by_debug:
  assumes "get_unverified_header env token = Inr header"
    and "decode_unverified env token = Inr payload"
    and "map_of payload ''iss'' = Some (JStr iss)"
    and "dict_has payload ''aud''"
    and "fst (get_platform_jwks cfg (http_get env) (t_check env) (t_store env) self iss) = JObj d"
    and "\<not> truthy (dict_get d ''keys'')"
  shows "fst (validate_jwt_token cfg rt env self token audience) =
           (if DEBUG cfg
            then [(''valid'', JBool True), (''payload'', JObj payload),
                  (''warnings'', JList [JStr ''Signature verification skipped in debug mode''])]
            else [(''valid'', JBool False),
                  (''error'', JStr ''No public keys available for signature verification'')]) \<and>
         DEBUG (Settings vars) = (lower (getenv vars ''DEBUG'' ''true'') = ''true'') \<and>
         DEBUG (Settings Map.empty)"
  using validate_jwt_token_empty_keys [OF assms] default_debug
  by (simp add: Settings_def)

theorem empty_key_set_gated_by_debug_witness:
  "fst (validate_jwt_token (Settings [''DEBUG'' \<mapsto> ''false'']) sample_runtime
          (sample_jwt_env (sample_payload 2000) fetch_fails) LTI13Validator_init ''token'' None)
     = [(''valid'', JBool False),
        (''error'', JStr ''No public keys available for signature verification'')] \<and>
   fst (validate_jwt_token (Settings [''DEBUG'' \<mapsto> ''True'']) sample_runtime
          (sample_jwt_env (sample_payload 2000) fetch_fails) LTI13Validator_init ''token'' None)
     = [(''valid'', JBool True), (''payload'', JObj (sample_payload 2000)),
        (''warnings'', JList [JStr ''Signature verification skipped in debug mode''])]"
proof -
  let ?env = "sample_jwt_env (sample_payload 2000) fetch_fails"
  have h: "get_unverified_header ?env ''token'' = Inr [(''alg'', JStr ''RS256''), (''kid'', JStr ''k1'')]"
    by (simp add: sample_jwt_env_def)
  have d: "decode_unverified ?env ''token'' = Inr (sample_payload 2000)"
    by (simp add: sample_jwt_env_def)
  have i: "map_of (sample_payload 2000) ''iss'' = Some (JStr ''https://moodle.example'')"
    by (simp add: sample_payload_def)
  have a: "dict_has (sample_payload 2000) ''aud''"
    by (simp add: sample_payload_def dict_has_def)
  have k: "\<And>cfg. fst (get_platform_jwks cfg (http_get ?env) (t_check ?env) (t_store ?env)
                 LTI13Validator_init ''https://moodle.example'') = JObj [(''keys'', JList [])]"
    by (simp add: sample_jwt_env_def sample_no_keys)
  have e: "\<not> truthy (dict_get [(''keys'', JList [])] ''keys'')"
    by (simp add: dict_get_def)
  have off: "\<not> DEBUG (Settings [''DEBUG'' \<mapsto> ''false''])"
    by (simp add: Settings_def getenv_def lower_def lower_char_def)
  have on: "DEBUG (Settings [''DEBUG'' \<mapsto> ''True''])"
    by (simp add: Settings_def getenv_def lower_def lower_char_def)
  show ?thesis
    using empty_key_set_gated_by_debug [OF h d i a k e, of "Settings [''DEBUG'' \<mapsto> ''false'']"
            sample_runtime None]
          empty_key_set_gated_by_debug [OF h d i a k e, of "Settings [''DEBUG'' \<mapsto> ''True'']"
            sample_runtime None]
          off on
    by simp
qed


text \<open>
  C3, as stated, fails: a valid result of \<open>validate_lti_message\<close> carries no payload at all
  (its keys are \<open>valid\<close>, \<open>errors\<close>, \<open>warnings\<close>), and an invalid result of
  \<open>validate_jwt_token\<close> carries one \<open>error\<close> string, that of the first failure, and no
  \<open>errors\<close> list.
\<close>

theorem validation_result_counterexample:
  "validate_lti_message (Settings Map.empty) sample_runtime 1000 (sample_payload 2000)
     = Inr [(''valid'', JBool True), (''errors'', JList []), (''warnings'', JList [])] \<and>
   fst (validate_jwt_token (Settings Map.empty) sample_runtime
          (sample_jwt_env [(''aud'', JStr ''client-123''), (''exp'', JInt 990)] fetch_fails)
          LTI13Validator_init ''token'' None)
     = [(''valid'', JBool False), (''error'', JStr ''Missing issuer (iss) in JWT'')]"
  using sample_lti_valid sample_missing_iss by simp

text \<open>
  C3, amended. Every result of \<open>validate_jwt_token\<close> is either \<open>valid=False\<close> with one
  \<open>error\<close> string (the first failure; nothing is accumulated), or \<open>valid=True\<close> with a
  payload and a warnings list: the unverified payload, which holds \<open>iss\<close> and \<open>aud\<close>, under
  \<open>DEBUG\<close>, or the payload the verifying decode returned. Every result that
  \<open>validate_lti_message\<close> returns has the keys \<open>valid\<close>, \<open>errors\<close>, \<open>warnings\<close> and no payload;
  \<open>valid\<close> is true exactly when \<open>errors\<close> is empty; and the four checks accumulate: each
  of the four messages is in \<open>errors\<close> exactly when its own check fails, whatever the
  other checks find.
\<close>

theorem validation_result_shapes:
  "((\<exists>m. fst (validate_jwt_token cfg rt env self token audience)
           = [(''valid'', JBool False), (''error'', JStr m)]) \<or>
    (\<exists>payload iss.
       decode_unverified env token = Inr payload \<and> dict_has payload ''iss'' \<and>
       dict_has payload ''aud'' \<and> dict_get payload ''iss'' = JStr iss \<and>
       ((DEBUG cfg \<and> fst (validate_jwt_token cfg rt env self token audience)
           = [(''valid'', JBool True), (''payload'', JObj payload),
              (''warnings'', JList [JStr ''Signature verification skipped in debug mode''])]) \<or>
        (\<exists>k p. decode_verified env token k (audience_or cfg audience) iss = Inr p \<and>
           fst (validate_jwt_token cfg rt env self token audience)
             = [(''valid'', JBool True), (''payload'', JObj p), (''warnings'', JList [])])))) \<and>
   (validate_lti_message cfg rt now claims = Inr r \<longrightarrow>
      (\<exists>errs warns e i.
         r = [(''valid'', JBool (errs = [])), (''errors'', JList (map JStr errs)),
              (''warnings'', JList (map JStr warns))] \<and>
         num_of (dict_get_default claims ''exp'' (JInt 0)) = Some e \<and>
         num_of (dict_get_default claims ''iat'' (JInt 0)) = Some i \<and>
         (''Token has expired'' \<in> set errs \<longleftrightarrow> e < py_int now) \<and>
         (''Token issued in the future'' \<in> set errs \<longleftrightarrow> py_int now + 60 < i) \<and>
         (''Invalid deployment ID: '' @
            py_str rt (dict_get claims ''https://purl.imsglobal.org/spec/lti/claim/deployment_id'')
            \<in> set errs \<longleftrightarrow>
          \<not> py_eq (dict_get claims ''https://purl.imsglobal.org/spec/lti/claim/deployment_id'')
               (JStr (LTI_DEPLOYMENT_ID cfg))) \<and>
         (''Missing required claims: '' @
            repr_str_list (filter (\<lambda>claim. \<not> dict_has claims claim) required_claims)
            \<in> set errs \<longleftrightarrow>
          filter (\<lambda>claim. \<not> dict_has claims claim) required_claims \<noteq> [])))"
proof -
  have a: "validate_lti_message cfg rt now claims = Inr r \<longrightarrow>
      (\<exists>errs warns e i.
         r = [(''valid'', JBool (errs = [])), (''errors'', JList (map JStr errs)),
              (''warnings'', JList (map JStr warns))] \<and>
         num_of (dict_get_default claims ''exp'' (JInt 0)) = Some e \<and>
         num_of (dict_get_default claims ''iat'' (JInt 0)) = Some i \<and>
         (''Token has expired'' \<in> set errs \<longleftrightarrow> e < py_int now) \<and>
         (''Token issued in the future'' \<in> set errs \<longleftrightarrow> py_int now + 60 < i) \<and>
         (''Invalid deployment ID: '' @
            py_str rt (dict_get claims ''https://purl.imsglobal.org/spec/lti/claim/deployment_id'')
            \<in> set errs \<longleftrightarrow>
          \<not> py_eq (dict_get claims ''https://purl.imsglobal.org/spec/lti/claim/deployment_id'')
               (JStr (LTI_DEPLOYMENT_ID cfg))) \<and>
         (''Missing required claims: '' @
            repr_str_list (filter (\<lambda>claim. \<not> dict_has claims claim) required_claims)
            \<in> set errs \<longleftrightarrow>
          filter (\<lambda>claim. \<not> dict_has claims claim) required_claims \<noteq> []))"
    using validate_lti_message_result [of cfg rt now claims r] by (intro impI)
  show ?thesis
    using validate_jwt_token_shape [of cfg rt env self token audience] a by (intro conjI)
qed

theorem validation_result_shapes_witness:
  "(\<exists>m. fst (validate_jwt_token (Settings Map.empty) sample_runtime
            (sample_jwt_env [(''aud'', JStr ''client-123''), (''exp'', JInt 990)] fetch_fails)
            LTI13Validator_init ''token'' None)
          = [(''valid'', JBool False), (''error'', JStr m)]) \<and>
   (\<exists>errs warns.
      validate_lti_message (Settings Map.empty) sample_runtime 1000 (sample_payload 990)
        = Inr [(''valid'', JBool (errs = [])), (''errors'', JList (map JStr errs)),
               (''warnings'', JList (map JStr warns))] \<and>
      ''Token has expired'' \<in> set errs \<and> ''Token issued in the future'' \<notin> set errs)"
proof -
  let ?env = "sample_jwt_env [(''aud'', JStr ''client-123''), (''exp'', JInt 990)] fetch_fails"
  let ?r = "[(''valid'', JBool False), (''errors'', JList [JStr ''Token has expired'']),
             (''warnings'', JList [])]"
  note t = validation_result_shapes [of "Settings Map.empty" sample_runtime ?env
      LTI13Validator_init "''token''" None 1000 "sample_payload 990" ?r]
  have d: "decode_unverified ?env ''token'' = Inr [(''aud'', JStr ''client-123''), (''exp'', JInt 990)]"
    by (simp add: sample_jwt_env_def)
  have n: "\<not> dict_has [(''aud'', JStr ''client-123''), (''exp'', JInt 990)] ''iss''"
    by (simp add: dict_has_def)
  have first: "\<exists>m. fst (validate_jwt_token (Settings Map.empty) sample_runtime ?env
            LTI13Validator_init ''token'' None) = [(''valid'', JBool False), (''error'', JStr m)]"
    using t [THEN conjunct1] n unfolding d by blast
  have x: "num_of (dict_get_default (sample_payload 990) ''exp'' (JInt 0)) = Some 990"
    and y: "num_of (dict_get_default (sample_payload 990) ''iat'' (JInt 0)) = Some 900"
    by (simp_all add: sample_payload_def dict_get_default_def)
  from t [THEN conjunct2, THEN mp, OF sample_lti_expired] obtain errs warns e i where
    r: "?r = [(''valid'', JBool (errs = [])), (''errors'', JList (map JStr errs)),
              (''warnings'', JList (map JStr warns))]"
    and e: "num_of (dict_get_default (sample_payload 990) ''exp'' (JInt 0)) = Some e"
    and i: "num_of (dict_get_default (sample_payload 990) ''iat'' (JInt 0)) = Some i"
    and m1: "''Token has expired'' \<in> set errs \<longleftrightarrow> e < py_int 1000"
    and m2: "''Token issued in the future'' \<in> set errs \<longleftrightarrow> py_int 1000 + 60 < i"
    by (elim exE conjE) (rule that)
  from e x i y have ei: "e = 990" "i = 900" by simp_all
  have p: "py_int 1000 = 1000" by (simp add: py_int_def)
  have in1: "''Token has expired'' \<in> set errs" using m1 ei p by simp
  have in2: "''Token issued in the future'' \<notin> set errs" using m2 ei p by simp
  have "Inr ?r = (Inr [(''valid'', JBool (errs = [])), (''errors'', JList (map JStr errs)),
              (''warnings'', JList (map JStr warns))] :: py_exc + pydict)"
    using r by (rule arg_cong)
  with sample_lti_expired have eq:
    "validate_lti_message (Settings Map.empty) sample_runtime 1000 (sample_payload 990)
       = Inr [(''valid'', JBool (errs = [])), (''errors'', JList (map JStr errs)),
              (''warnings'', JList (map JStr warns))]"
    by (rule trans)
  have second: "\<exists>errs warns.
      validate_lti_message (Settings Map.empty) sample_runtime 1000 (sample_payload 990)
        = Inr [(''valid'', JBool (errs = [])), (''errors'', JList (map JStr errs)),
               (''warnings'', JList (map JStr warns))] \<and>
      ''Token has expired'' \<in> set errs \<and> ''Token issued in the future'' \<notin> set errs"
    using eq in1 in2 by blast
  show ?thesis using first second by (rule conjI)
qed


text \<open>
  C8, as stated, fails: with the default configuration and an issuer that resolves to
  no keys, \<open>validate_jwt_token\<close> returns a valid result for a token whose \<open>exp\<close> is ten
  seconds in the past (990 at clock 1000); expiry is checked only by the verifying
  decode, which the fallback skips.
\<close>

theorem expired_token_counterexample:
  "dict_get (sample_payload 990) ''exp'' = JInt 990 \<and>
   t_check (sample_jwt_env (sample_payload 990) fetch_fails) = 1000 \<and>
   fst (validate_jwt_token (Settings Map.empty) sample_runtime
          (sample_jwt_env (sample_payload 990) fetch_fails) LTI13Validator_init ''token'' None)
     = [(''valid'', JBool True), (''payload'', JObj (sample_payload 990)),
        (''warnings'', JList [JStr ''Signature verification skipped in debug mode''])]"
  using sample_skip [of 990] by (simp add: sample_payload_def dict_get_def sample_jwt_env_def)

text \<open>
  C8, amended. \<open>validate_lti_message\<close>: for every payload whose \<open>exp\<close> is an integer below
  the current time in whole seconds, a returned result has \<open>valid=False\<close> and
  \<open>Token has expired\<close> among its errors; and a result is returned whenever \<open>iat\<close> is a
  number or absent and \<open>target_link_uri\<close> is a string or falsy. \<open>validate_jwt_token\<close>:
  whenever a PyJWT call of the \<open>try\<close> block raises \<open>ExpiredSignatureError\<close>, the result is
  \<open>valid=False\<close> with the error \<open>Token expired\<close>, which none of the other named handlers
  and none of the function's own \<open>ValueError\<close>s produces.
\<close>

theorem expired_token_reported:
  "(map_of claims ''exp'' = Some (JInt e) \<longrightarrow> e < py_int now \<longrightarrow>
    validate_lti_message cfg rt now claims = Inr r \<longrightarrow>
      dict_get r ''valid'' = JBool False \<and>
      (\<exists>errs. dict_get r ''errors'' = JList (map JStr errs) \<and> ''Token has expired'' \<in> set errs)) \<and>
   (map_of claims ''exp'' = Some (JInt e) \<longrightarrow>
    num_of (dict_get_default claims ''iat'' (JInt 0)) = Some i \<longrightarrow>
    (\<not> truthy (dict_get claims ''https://purl.imsglobal.org/spec/lti/claim/target_link_uri'') \<or>
     (\<exists>uri. dict_get claims ''https://purl.imsglobal.org/spec/lti/claim/target_link_uri'' = JStr uri)) \<longrightarrow>
      (\<exists>r. validate_lti_message cfg rt now claims = Inr r)) \<and>
   (fst (validate_jwt_token_try cfg rt env self token audience) = Inl ExpiredSignatureError \<longrightarrow>
      fst (validate_jwt_token cfg rt env self token audience)
        = [(''valid'', JBool False), (''error'', JStr ''Token expired'')]) \<and>
   validate_jwt_token_except rt (InvalidAudienceError m)
     \<noteq> [(''valid'', JBool False), (''error'', JStr ''Token expired'')] \<and>
   validate_jwt_token_except rt (InvalidIssuerError m)
     \<noteq> [(''valid'', JBool False), (''error'', JStr ''Token expired'')] \<and>
   validate_jwt_token_except rt InvalidSignatureError
     \<noteq> [(''valid'', JBool False), (''error'', JStr ''Token expired'')] \<and>
   validate_jwt_token_except rt (ValueError ''Missing issuer (iss) in JWT'')
     \<noteq> [(''valid'', JBool False), (''error'', JStr ''Token expired'')] \<and>
   validate_jwt_token_except rt (ValueError ''Missing audience (aud) in JWT'')
     \<noteq> [(''valid'', JBool False), (''error'', JStr ''Token expired'')] \<and>
   validate_jwt_token_except rt (ValueError ''No public keys available for signature verification'')
     \<noteq> [(''valid'', JBool False), (''error'', JStr ''Token expired'')] \<and>
   validate_jwt_token_except rt (ValueError (''No matching public key found for kid: '' @ kid))
     \<noteq> [(''valid'', JBool False), (''error'', JStr ''Token expired'')]"
proof -
  have a: "map_of claims ''exp'' = Some (JInt e) \<longrightarrow> e < py_int now \<longrightarrow>
    validate_lti_message cfg rt now claims = Inr r \<longrightarrow>
      dict_get r ''valid'' = JBool False \<and>
      (\<exists>errs. dict_get r ''errors'' = JList (map JStr errs) \<and> ''Token has expired'' \<in> set errs)"
    using validate_lti_message_expired [of claims e now cfg rt r] by blast
  have b: "map_of claims ''exp'' = Some (JInt e) \<longrightarrow>
    num_of (dict_get_default claims ''iat'' (JInt 0)) = Some i \<longrightarrow>
    (\<not> truthy (dict_get claims ''https://purl.imsglobal.org/spec/lti/claim/target_link_uri'') \<or>
     (\<exists>uri. dict_get claims ''https://purl.imsglobal.org/spec/lti/claim/target_link_uri'' = JStr uri)) \<longrightarrow>
      (\<exists>r. validate_lti_message cfg rt now claims = Inr r)"
  proof (intro impI)
    assume x: "map_of claims ''exp'' = Some (JInt e)"
      and y: "num_of (dict_get_default claims ''iat'' (JInt 0)) = Some i"
      and z: "\<not> truthy (dict_get claims ''https://purl.imsglobal.org/spec/lti/claim/target_link_uri'') \<or>
     (\<exists>uri. dict_get claims ''https://purl.imsglobal.org/spec/lti/claim/target_link_uri'' = JStr uri)"
    from x have "num_of (dict_get_default claims ''exp'' (JInt 0)) = Some e"
      by (simp add: dict_get_default_def)
    then show "\<exists>r. validate_lti_message cfg rt now claims = Inr r"
      using y z by (rule validate_lti_message_returns)
  qed
  have c: "fst (validate_jwt_token_try cfg rt env self token audience) = Inl ExpiredSignatureError \<longrightarrow>
      fst (validate_jwt_token cfg rt env self token audience)
        = [(''valid'', JBool False), (''error'', JStr ''Token expired'')]"
    by (simp add: validate_jwt_token_fst validate_jwt_token_except_def)
  have d: "validate_jwt_token_except rt (InvalidAudienceError m)
     \<noteq> [(''valid'', JBool False), (''error'', JStr ''Token expired'')]"
    "validate_jwt_token_except rt (InvalidIssuerError m)
     \<noteq> [(''valid'', JBool False), (''error'', JStr ''Token expired'')]"
    "validate_jwt_token_except rt InvalidSignatureError
     \<noteq> [(''valid'', JBool False), (''error'', JStr ''Token expired'')]"
    "validate_jwt_token_except rt (ValueError ''Missing issuer (iss) in JWT'')
     \<noteq> [(''valid'', JBool False), (''error'', JStr ''Token expired'')]"
    "validate_jwt_token_except rt (ValueError ''Missing audience (aud) in JWT'')
     \<noteq> [(''valid'', JBool False), (''error'', JStr ''Token expired'')]"
    "validate_jwt_token_except rt (ValueError ''No public keys available for signature verification'')
     \<noteq> [(''valid'', JBool False), (''error'', JStr ''Token expired'')]"
    "validate_jwt_token_except rt (ValueError (''No matching public key found for kid: '' @ kid))
     \<noteq> [(''valid'', JBool False), (''error'', JStr ''Token expired'')]"
    by (simp_all add: validate_jwt_token_except_def exc_str_def)
  show ?thesis using a b c d by (intro conjI)
qed


theorem expired_token_reported_witness:
  "(\<exists>r. validate_lti_message (Settings Map.empty) sample_runtime 1000 (sample_payload 990) = Inr r \<and>
        dict_get r ''valid'' = JBool False \<and>
        (\<exists>errs. dict_get r ''errors'' = JList (map JStr errs) \<and> ''Token has expired'' \<in> set errs)) \<and>
   fst (validate_jwt_token (Settings Map.empty) sample_runtime
          (sample_jwt_env (sample_payload 990) fetch_ok) LTI13Validator_init ''token'' None)
     = [(''valid'', JBool False), (''error'', JStr ''Token expired'')]"
proof -
  let ?r = "[(''valid'', JBool False), (''errors'', JList [JStr ''Token has expired'']),
             (''warnings'', JList [])]"
  note t = expired_token_reported [where claims = "sample_payload 990" and e = 990 and now = 1000
      and cfg = "Settings Map.empty" and rt = sample_runtime and r = ?r and i = 900
      and env = "sample_jwt_env (sample_payload 990) fetch_ok" and self = LTI13Validator_init
      and token = "''token''" and audience = None]
  have x: "map_of (sample_payload 990) ''exp'' = Some (JInt 990)"
    by (simp add: sample_payload_def)
  have p: "(990::int) < py_int 1000" by (simp add: py_int_def)
  from t [THEN conjunct1, THEN mp, OF x, THEN mp, OF p, THEN mp, OF sample_lti_expired]
  have a: "dict_get ?r ''valid'' = JBool False \<and>
      (\<exists>errs. dict_get ?r ''errors'' = JList (map JStr errs) \<and> ''Token has expired'' \<in> set errs)" .
  have first: "\<exists>r. validate_lti_message (Settings Map.empty) sample_runtime 1000 (sample_payload 990) = Inr r \<and>
        dict_get r ''valid'' = JBool False \<and>
        (\<exists>errs. dict_get r ''errors'' = JList (map JStr errs) \<and> ''Token has expired'' \<in> set errs)"
    using sample_lti_expired a by (intro exI [of _ ?r] conjI) (rule sample_lti_expired, simp_all)
  from t [THEN conjunct2, THEN conjunct2, THEN conjunct1, THEN mp, OF sample_expired_try]
  have second: "fst (validate_jwt_token (Settings Map.empty) sample_runtime
          (sample_jwt_env (sample_payload 990) fetch_ok) LTI13Validator_init ''token'' None)
     = [(''valid'', JBool False), (''error'', JStr ''Token expired'')]" .
  show ?thesis using first second by (rule conjI)
qed

end
